theory Spec2Isabelle
  imports Complex_Main
begin

section \<open>Python values shared by the modules\<close>

text \<open>
  The exceptions the modelled code can raise, each with its message. A function that can
  raise returns \<open>error + 'a\<close>, with \<open>Inl\<close> for the exception.
\<close>

datatype error =
    ValueError string
  | AxisError string
  | AssertionError string
  | AttributeError string
  | KeyError string
  | FileNotFoundError string
  | OverflowError string

text \<open>
  The state of NumPy's global random generator: the stream of raw 53-bit outputs still to
  come. \<open>random_sample\<close> turns one raw output into a double of the half-open interval
  from 0 to 1 by dividing by \<open>2 ^ 53\<close>, so 0 can be drawn and 1 cannot.
\<close>

type_synonym rng = "nat \<Rightarrow> nat"

definition rng_advance :: "nat \<Rightarrow> rng \<Rightarrow> rng" where
  "rng_advance n r = (\<lambda>k. r (k + n))"

definition random_sample :: "rng \<Rightarrow> nat \<Rightarrow> real" where
  "random_sample r k = real (r k mod 2 ^ 53) / 2 ^ 53"

definition rk_interval :: "nat \<Rightarrow> rng \<Rightarrow> nat \<times> rng" where
  \<comment> \<open>a number between 0 and \<open>m\<close>, both included, from the next raw output\<close>
  "rk_interval m r = (r 0 mod (Suc m), rng_advance 1 r)"

definition swap :: "'a list \<Rightarrow> nat \<Rightarrow> nat \<Rightarrow> 'a list" where
  "swap xs i j = xs[i := xs ! j, j := xs ! i]"

fun shuffle_from :: "nat \<Rightarrow> nat list \<Rightarrow> rng \<Rightarrow> nat list \<times> rng" where
  \<comment> \<open>\<open>for i in reversed(range(1, n)): j = rk_interval(i); swap x[i], x[j]\<close>\<close>
  "shuffle_from 0 xs r = (xs, r)"
| "shuffle_from (Suc i) xs r =
     (case rk_interval (Suc i) r of (j, r') \<Rightarrow> shuffle_from i (swap xs (Suc i) j) r')"

definition np_random_permutation :: "nat \<Rightarrow> rng \<Rightarrow> nat list \<times> rng" where
  "np_random_permutation n r = shuffle_from (n - 1) [0..<n] r"

section \<open>NumPy arrays\<close>

text \<open>
  An n-dimensional array is its shape and its elements in row-major (C) order. A
  well-formed array holds as many elements as its shape says.
\<close>

record 'a ndarray =
  shape :: "nat list"
  items :: "'a list"

definition wf_ndarray :: "'a ndarray \<Rightarrow> bool" where
  "wf_ndarray a = (length (items a) = prod_list (shape a))"

fun ndindex :: "nat list \<Rightarrow> nat list list" where
  \<comment> \<open>every index of an array of the given shape, in row-major order\<close>
  "ndindex [] = [[]]"
| "ndindex (d # ds) = concat (map (\<lambda>i. map ((#) i) (ndindex ds)) [0..<d])"

fun strides :: "nat list \<Rightarrow> nat list" where
  \<comment> \<open>row-major strides, counted in elements\<close>
  "strides [] = []"
| "strides (d # ds) = prod_list ds # strides ds"

definition offset :: "nat list \<Rightarrow> nat list \<Rightarrow> nat" where
  "offset idx strd = sum_list (map2 (*) idx strd)"

definition valid_index :: "nat list \<Rightarrow> nat list \<Rightarrow> bool" where
  "valid_index shp idx = (length idx = length shp \<and> list_all (\<lambda>(i, d). i < d) (zip idx shp))"

definition getitem :: "'a ndarray \<Rightarrow> nat list \<Rightarrow> 'a" where
  \<comment> \<open>\<open>a[i, j, ...]\<close> at an index inside the shape\<close>
  "getitem a idx = items a ! offset idx (strides (shape a))"

definition view :: "'a ndarray \<Rightarrow> nat list \<Rightarrow> nat list \<Rightarrow> 'a ndarray" where
  \<comment> \<open>the array that reads \<open>a\<close>'s elements through another shape and other strides\<close>
  "view a shp strd = \<lparr>shape = shp, items = map (\<lambda>idx. items a ! offset idx strd) (ndindex shp)\<rparr>"

definition permute_axes :: "'a ndarray \<Rightarrow> nat list \<Rightarrow> 'a ndarray" where
  "permute_axes a perm =
     view a (map ((!) (shape a)) perm) (map ((!) (strides (shape a))) perm)"

definition in_intp :: "int \<Rightarrow> bool" where
  \<comment> \<open>a Python integer that fits NumPy's 64-bit index type\<close>
  "in_intp v = (- (2 ^ 63) \<le> v \<and> v < 2 ^ 63)"

definition c_int :: "int \<Rightarrow> int" where
  \<comment> \<open>a 64-bit index narrowed to a 32-bit C \<open>int\<close>: the low 32 bits, signed\<close>
  "c_int v = (v + 2 ^ 31) mod 2 ^ 32 - 2 ^ 31"

fun check_axes :: "nat \<Rightarrow> nat list \<Rightarrow> int list \<Rightarrow> error + nat list" where
  \<comment> \<open>NumPy walks the axes once: each is narrowed to a C \<open>int\<close> (\<open>int axis = axes[i]\<close>),
      then range-checked, a negative one counts from the end, and an axis already seen
      is refused\<close>
  "check_axes n seen [] = Inr seen"
| "check_axes n seen (ax # axs) =
     (let axis = c_int ax
      in if axis < - int n \<or> int n \<le> axis
         then Inl (AxisError ''axis is out of bounds for array'')
         else let k = nat (if axis < 0 then axis + int n else axis)
              in if k \<in> set seen then Inl (ValueError ''repeated axis in transpose'')
                 else check_axes n (seen @ [k]) axs)"

definition np_transpose :: "'a ndarray \<Rightarrow> int list option \<Rightarrow> error + 'a ndarray" where
  \<comment> \<open>the axes are first converted to 64-bit indices, which a larger Python integer
      does not survive, then counted, then checked one by one\<close>
  "np_transpose a axes =
     (let n = length (shape a)
      in case axes of
           None \<Rightarrow> Inr (permute_axes a (rev [0..<n]))
         | Some ax \<Rightarrow>
             if \<not> list_all in_intp ax
             then Inl (OverflowError ''Python int too large to convert to C long'')
             else if length ax \<noteq> n then Inl (ValueError ''axes do not match array'')
             else (case check_axes n [] ax of
                     Inl e \<Rightarrow> Inl e
                   | Inr perm \<Rightarrow> Inr (permute_axes a perm)))"

definition np_argsort :: "int list \<Rightarrow> nat list" where
  \<comment> \<open>the positions of the elements in ascending order of the elements\<close>
  "np_argsort xs = map snd (sort_key fst (zip xs [0..<length xs]))"

definition broadcastable :: "nat list \<Rightarrow> nat list \<Rightarrow> bool" where
  \<comment> \<open>shapes are aligned at their last axes; an axis of length 1 stretches\<close>
  "broadcastable ashp tshp =
     (length ashp \<le> length tshp
      \<and> list_all (\<lambda>(d, t). d = t \<or> d = 1) (zip (rev ashp) (rev tshp)))"

definition broadcast_strides :: "nat list \<Rightarrow> nat list \<Rightarrow> nat list" where
  "broadcast_strides ashp tshp =
     replicate (length tshp - length ashp) 0
     @ map2 (\<lambda>d s. if d = 1 then 0 else s) ashp (strides ashp)"

definition np_broadcast_to :: "'a ndarray \<Rightarrow> nat list \<Rightarrow> error + 'a ndarray" where
  "np_broadcast_to a tshp =
     (if broadcastable (shape a) tshp
      then Inr (view a tshp (broadcast_strides (shape a) tshp))
      else Inl (ValueError ''operands could not be broadcast together''))"

fun broadcast_shapes_rev :: "nat list \<Rightarrow> nat list \<Rightarrow> nat list option" where
  "broadcast_shapes_rev [] ys = Some ys"
| "broadcast_shapes_rev (x # xs) [] = Some (x # xs)"
| "broadcast_shapes_rev (x # xs) (y # ys) =
     (if x = y \<or> y = 1 then map_option ((#) x) (broadcast_shapes_rev xs ys)
      else if x = 1 then map_option ((#) y) (broadcast_shapes_rev xs ys)
      else None)"

definition broadcast_shapes :: "nat list \<Rightarrow> nat list \<Rightarrow> nat list option" where
  "broadcast_shapes s1 s2 = map_option rev (broadcast_shapes_rev (rev s1) (rev s2))"

definition np_binary ::
  "('a \<Rightarrow> 'b \<Rightarrow> 'c) \<Rightarrow> 'a ndarray \<Rightarrow> 'b ndarray \<Rightarrow> error + 'c ndarray" where
  \<comment> \<open>an elementwise operation of two arrays, broadcast against each other\<close>
  "np_binary f a b =
     (case broadcast_shapes (shape a) (shape b) of
        None \<Rightarrow> Inl (ValueError ''operands could not be broadcast together'')
      | Some shp \<Rightarrow>
          Inr \<lparr>shape = shp,
               items = map2 f (items (view a shp (broadcast_strides (shape a) shp)))
                              (items (view b shp (broadcast_strides (shape b) shp)))\<rparr>)"

definition np_scalar :: "('a \<Rightarrow> 'b) \<Rightarrow> 'a ndarray \<Rightarrow> 'b ndarray" where
  \<comment> \<open>an elementwise operation of an array and a scalar\<close>
  "np_scalar f a = \<lparr>shape = shape a, items = map f (items a)\<rparr>"

definition np_random_rand :: "nat list \<Rightarrow> rng \<Rightarrow> real ndarray \<times> rng" where
  \<comment> \<open>\<open>np.random.rand(d0, d1, ...)\<close> with at least one argument\<close>
  "np_random_rand shp r =
     (\<lparr>shape = shp, items = map (random_sample r) [0..<prod_list shp]\<rparr>,
      rng_advance (prod_list shp) r)"

section \<open>Tensor and Context\<close>

text \<open>
  Modelled from the spec: the class \<open>Tensor\<close>, whose source is not among the files. A
  tensor has an array \<open>data\<close>, a flag \<open>requires_grad\<close> and an identity (\<open>tid\<close>, what
  Python's \<open>id\<close> returns), used as the key of the gradient mapping. The constructor
  takes the array and, optionally, the flag; what the flag is when the caller leaves it
  out is the constructor's default, a parameter \<open>dflt\<close> of every function that builds a
  tensor that way. The objects a call creates take their identities from \<open>fresh\<close>
  upwards.
\<close>

record 'a Tensor =
  tid :: nat
  data :: "'a ndarray"
  requires_grad :: bool

definition Tensor_init :: "nat \<Rightarrow> 'a ndarray \<Rightarrow> bool \<Rightarrow> 'a Tensor" where
  "Tensor_init i d rg = \<lparr>tid = i, data = d, requires_grad = rg\<rparr>"

definition Tensor_shape :: "'a Tensor \<Rightarrow> nat list" where
  "Tensor_shape x = shape (data x)"

text \<open>What a caller may pass where a tensor is expected: a tensor, an array or a number.\<close>

datatype 'a arg = IsTensor "'a Tensor" | IsArray "'a ndarray" | IsScalar 'a

fun as_array :: "'a arg \<Rightarrow> 'a ndarray" where
  "as_array (IsTensor t) = data t"
| "as_array (IsArray a) = a"
| "as_array (IsScalar v) = \<lparr>shape = [], items = [v]\<rparr>"

fun is_Tensor :: "'a arg \<Rightarrow> bool" where
  "is_Tensor (IsTensor t) = True"
| "is_Tensor (IsArray a) = False"
| "is_Tensor (IsScalar v) = False"

definition to_Tensor :: "bool \<Rightarrow> nat \<Rightarrow> 'a arg \<Rightarrow> 'a Tensor" where
  \<comment> \<open>\<open>if not isinstance(x, Tensor): x = Tensor(x)\<close>\<close>
  "to_Tensor dflt i x = (case x of IsTensor t \<Rightarrow> t | _ \<Rightarrow> Tensor_init i (as_array x) dflt)"

text \<open>
  Modelled from the spec: the class \<open>Context\<close>, whose source is not among the files.
  \<open>save_for_backward\<close> records the tensors given, \<open>save_arguments\<close> records each named
  argument. The only argument the modelled operations save is a tuple of axes or \<open>None\<close>.
\<close>

record 'a Context =
  saved_tensors :: "'a Tensor list"
  saved_arguments :: "string \<rightharpoonup> int list option"

definition save_for_backward :: "'a Context \<Rightarrow> 'a Tensor list \<Rightarrow> 'a Context" where
  "save_for_backward ctx ts = ctx\<lparr>saved_tensors := ts\<rparr>"

definition save_arguments :: "'a Context \<Rightarrow> string \<Rightarrow> int list option \<Rightarrow> 'a Context" where
  "save_arguments ctx k v = ctx\<lparr>saved_arguments := (saved_arguments ctx)(k \<mapsto> v)\<rparr>"

type_synonym 'a grad_dict = "nat \<rightharpoonup> 'a ndarray"

section \<open>ops/matrix.py\<close>

subsection \<open>Transpose\<close>

definition Transpose_forward ::
  "bool \<Rightarrow> nat \<Rightarrow> 'a Context \<Rightarrow> 'a arg \<Rightarrow> int list option
     \<Rightarrow> 'a Context \<times> (error + 'a Tensor)" where
  \<comment> \<open>the context is written before NumPy sees the axes, so it is returned in either case\<close>
  "Transpose_forward dflt fresh ctx x0 axes =
     (let x = to_Tensor dflt fresh x0;
          out_id = (if is_Tensor x0 then fresh else Suc fresh);
          ctx1 = save_for_backward ctx [x];
          ctx2 = save_arguments ctx1 ''axes'' axes
      in (ctx2,
          case axes of
            None \<Rightarrow>
              (case np_transpose (data x) None of
                 Inl e \<Rightarrow> Inl e
               | Inr d \<Rightarrow> Inr (Tensor_init out_id d dflt))
          | Some ax \<Rightarrow>
              (case np_transpose (data x) (Some ax) of
                 Inl e \<Rightarrow> Inl e
               | Inr d \<Rightarrow> Inr (Tensor_init out_id d dflt))))"

definition Transpose_backward ::
  "'a Context \<Rightarrow> 'a ndarray \<Rightarrow> 'a grad_dict \<Rightarrow> error + 'a grad_dict" where
  "Transpose_backward ctx grad_output grad_dict =
     (case saved_tensors ctx of
        [x] \<Rightarrow>
          (case saved_arguments ctx ''axes'' of
             None \<Rightarrow> Inl (KeyError ''axes'')
           | Some axes \<Rightarrow>
               if requires_grad x then
                 (case axes of
                    None \<Rightarrow>
                      (case np_transpose grad_output None of
                         Inl e \<Rightarrow> Inl e
                       | Inr g \<Rightarrow> Inr (grad_dict(tid x \<mapsto> g)))
                  | Some ax \<Rightarrow>
                      (let inverse_axes = np_argsort ax
                       in case np_transpose grad_output (Some (map int inverse_axes)) of
                            Inl e \<Rightarrow> Inl e
                          | Inr g \<Rightarrow> Inr (grad_dict(tid x \<mapsto> g))))
               else Inr grad_dict)
      | _ \<Rightarrow> Inl (ValueError ''wrong number of values to unpack''))"

subsection \<open>What the spec calls a valid permutation\<close>



subsection \<open>Comparisons\<close>

definition Compare_compare ::
  "bool \<Rightarrow> nat \<Rightarrow> ('a \<Rightarrow> 'a \<Rightarrow> bool) \<Rightarrow> 'a arg \<Rightarrow> 'a arg \<Rightarrow> error + bool Tensor" where
  \<comment> \<open>\<open>Compare._compare\<close>: both operands become tensors, then NumPy compares their arrays\<close>
  "Compare_compare dflt fresh op x1_0 x2_0 =
     (let x1 = to_Tensor dflt fresh x1_0;
          fresh1 = (if is_Tensor x1_0 then fresh else Suc fresh);
          x2 = to_Tensor dflt fresh1 x2_0;
          fresh2 = (if is_Tensor x2_0 then fresh1 else Suc fresh1)
      in case np_binary op (data x1) (data x2) of
           Inl e \<Rightarrow> Inl e
         | Inr d \<Rightarrow> Inr (Tensor_init fresh2 d dflt))"

definition Compare_backward ::
  "'a Context \<Rightarrow> 'a ndarray \<Rightarrow> 'a grad_dict \<Rightarrow> error + 'a grad_dict" where
  \<comment> \<open>the body is only the docstring "Comparison operations have no gradient"\<close>
  "Compare_backward ctx grad_output grad_dict = Inr grad_dict"

definition Greater_forward ::
  "bool \<Rightarrow> nat \<Rightarrow> 'a::linorder Context \<Rightarrow> 'a arg \<Rightarrow> 'a arg \<Rightarrow> error + bool Tensor" where
  "Greater_forward dflt fresh ctx x1 x2 = Compare_compare dflt fresh (\<lambda>a b. a > b) x1 x2"

definition GreaterEqual_forward ::
  "bool \<Rightarrow> nat \<Rightarrow> 'a::linorder Context \<Rightarrow> 'a arg \<Rightarrow> 'a arg \<Rightarrow> error + bool Tensor" where
  "GreaterEqual_forward dflt fresh ctx x1 x2 = Compare_compare dflt fresh (\<lambda>a b. a \<ge> b) x1 x2"

definition Less_forward ::
  "bool \<Rightarrow> nat \<Rightarrow> 'a::linorder Context \<Rightarrow> 'a arg \<Rightarrow> 'a arg \<Rightarrow> error + bool Tensor" where
  "Less_forward dflt fresh ctx x1 x2 = Compare_compare dflt fresh (\<lambda>a b. a < b) x1 x2"

definition LessEqual_forward ::
  "bool \<Rightarrow> nat \<Rightarrow> 'a::linorder Context \<Rightarrow> 'a arg \<Rightarrow> 'a arg \<Rightarrow> error + bool Tensor" where
  "LessEqual_forward dflt fresh ctx x1 x2 = Compare_compare dflt fresh (\<lambda>a b. a \<le> b) x1 x2"

definition Equal_forward ::
  "bool \<Rightarrow> nat \<Rightarrow> 'a::linorder Context \<Rightarrow> 'a arg \<Rightarrow> 'a arg \<Rightarrow> error + bool Tensor" where
  "Equal_forward dflt fresh ctx x1 x2 = Compare_compare dflt fresh (\<lambda>a b. a = b) x1 x2"

definition NotEqual_forward ::
  "bool \<Rightarrow> nat \<Rightarrow> 'a::linorder Context \<Rightarrow> 'a arg \<Rightarrow> 'a arg \<Rightarrow> error + bool Tensor" where
  "NotEqual_forward dflt fresh ctx x1 x2 = Compare_compare dflt fresh (\<lambda>a b. a \<noteq> b) x1 x2"

text \<open>
  The six comparison classes. Each defines \<open>forward\<close> and inherits \<open>backward\<close> from
  \<open>Compare\<close>.
\<close>

datatype comparison = Greater | GreaterEqual | Less | LessEqual | Equal | NotEqual

fun comparison_forward ::
  "comparison \<Rightarrow> bool \<Rightarrow> nat \<Rightarrow> 'a::linorder Context \<Rightarrow> 'a arg \<Rightarrow> 'a arg
     \<Rightarrow> error + bool Tensor" where
  "comparison_forward Greater = Greater_forward"
| "comparison_forward GreaterEqual = GreaterEqual_forward"
| "comparison_forward Less = Less_forward"
| "comparison_forward LessEqual = LessEqual_forward"
| "comparison_forward Equal = Equal_forward"
| "comparison_forward NotEqual = NotEqual_forward"

definition comparison_backward ::
  "comparison \<Rightarrow> 'a Context \<Rightarrow> 'a ndarray \<Rightarrow> 'a grad_dict \<Rightarrow> error + 'a grad_dict" where
  "comparison_backward cls = Compare_backward"

section \<open>nn/base/dropout.py\<close>

text \<open>
  Array elements are real numbers here: every product the two layers form at the
  probabilities 0 and 1 is a product with 0 or 1, which floating point computes exactly
  on finite values. The attribute \<open>p\<close> is the field \<open>drop_prob\<close>; \<open>training\<close> is the
  flag every module carries.
\<close>

record Dropout =
  drop_prob :: real
  inplace :: bool
  training :: bool

record Dropout2d = Dropout +
  self_mask :: "real ndarray option"

definition Dropout_init :: "real \<Rightarrow> bool \<Rightarrow> bool \<Rightarrow> error + Dropout" where
  "Dropout_init p inpl tr =
     (if p < 0 \<or> p > 1
      then Inl (ValueError ''dropout probability has to be between 0 and 1'')
      else Inr \<lparr>drop_prob = p, inplace = inpl, training = tr\<rparr>)"

definition Dropout2d_init :: "real \<Rightarrow> bool \<Rightarrow> bool \<Rightarrow> error + Dropout2d" where
  "Dropout2d_init p inpl tr =
     (if p < 0 \<or> p > 1
      then Inl (ValueError ''dropout probability has to be between 0 and 1'')
      else Inr \<lparr>drop_prob = p, inplace = inpl, training = tr, self_mask = None\<rparr>)"

definition keep_mask :: "real \<Rightarrow> real ndarray \<Rightarrow> real ndarray" where
  \<comment> \<open>\<open>(u > p).astype(np.float64)\<close>\<close>
  "keep_mask p u = np_scalar (\<lambda>v. if v > p then 1 else 0) u"

definition dropout_scale :: "real \<Rightarrow> real" where
  \<comment> \<open>\<open>1.0 / (1.0 - self.p) if self.p != 1.0 else 0.0\<close>\<close>
  "dropout_scale p = (if p \<noteq> 1 then 1 / (1 - p) else 0)"

text \<open>
  A forward call returns what the call returns, the argument tensor as the call leaves it
  (the in-place variant writes into it) and the state of the random generator.
  \<open>np.random.rand\<close> called without a dimension returns a Python float, whose comparison
  with \<open>p\<close> is a Python \<open>bool\<close> without \<open>astype\<close>: a tensor of shape \<open>()\<close> raises.
\<close>

definition Dropout_forward ::
  "nat \<Rightarrow> Dropout \<Rightarrow> real Tensor \<Rightarrow> rng \<Rightarrow> (error + real Tensor) \<times> real Tensor \<times> rng" where
  "Dropout_forward fresh self x r =
     (if training self then
        (if Tensor_shape x = []
         then (Inl (AttributeError ''bool object has no attribute astype''), x, rng_advance 1 r)
         else
           (case np_random_rand (Tensor_shape x) r of
              (u, r') \<Rightarrow>
                (let mask0 = keep_mask (drop_prob self) u;
                     scale = dropout_scale (drop_prob self);
                     mask1 = np_scalar (\<lambda>m. m * scale) mask0
                 in case np_binary (*) (data x) mask1 of
                      Inl e \<Rightarrow> (Inl e, x, r')
                    | Inr d \<Rightarrow>
                        if inplace self then (Inr (x\<lparr>data := d\<rparr>), x\<lparr>data := d\<rparr>, r')
                        else (Inr (Tensor_init fresh d (requires_grad x)), x, r'))))
      else (Inr x, x, r))"

function str_nat :: "nat \<Rightarrow> string" where
  \<comment> \<open>Python's \<open>str\<close> of a non-negative integer\<close>
  "str_nat n =
     (if n < 10 then [char_of (48 + n)]
      else str_nat (n div 10) @ [char_of (48 + n mod 10)])"
  by pat_completeness auto
termination
  by (relation "measure id") auto

definition Dropout2d_forward ::
  "nat \<Rightarrow> Dropout2d \<Rightarrow> real Tensor \<Rightarrow> rng
     \<Rightarrow> (error + real Tensor) \<times> Dropout2d \<times> real Tensor \<times> rng" where
  "Dropout2d_forward fresh self x r =
     (if training self then
        (if length (Tensor_shape x) \<noteq> 4
         then (Inl (AssertionError
                      (''expected 4D input, got '' @ str_nat (length (Tensor_shape x))
                       @ ''D input'')),
               self, x, r)
         else
           (case np_random_rand [Tensor_shape x ! 0, Tensor_shape x ! 1, 1, 1] r of
              (u, r') \<Rightarrow>
                (case np_broadcast_to (keep_mask (drop_prob self) u) (Tensor_shape x) of
                   Inl e \<Rightarrow> (Inl e, self, x, r')
                 | Inr m \<Rightarrow>
                     (let self' = self\<lparr>self_mask := Some m\<rparr>;
                          scale = dropout_scale (drop_prob self)
                      in if inplace self then
                           (case np_binary (*) (data x) (np_scalar (\<lambda>v. v * scale) m) of
                              Inl e \<Rightarrow> (Inl e, self', x, r')
                            | Inr d \<Rightarrow> (Inr (x\<lparr>data := d\<rparr>), self', x\<lparr>data := d\<rparr>, r'))
                         else
                           (case np_binary (*) (data x) m of
                              Inl e \<Rightarrow> (Inl e, self', x, r')
                            | Inr d \<Rightarrow>
                                (Inr (Tensor_init fresh (np_scalar (\<lambda>v. v * scale) d)
                                        (requires_grad x)),
                                 self', x, r'))))))
      else (Inr x, self, x, r))"

section \<open>core/serialization.py\<close>

text \<open>
  A Python dictionary with string keys: the entries in insertion order; storing under a
  key that is present replaces the value where it stands.
\<close>

type_synonym 'v dict = "(string \<times> 'v) list"

fun dict_set :: "string \<Rightarrow> 'v \<Rightarrow> 'v dict \<Rightarrow> 'v dict" where
  "dict_set k v [] = [(k, v)]"
| "dict_set k v ((k', v') # rest) =
     (if k' = k then (k, v) # rest else (k', v') # dict_set k v rest)"

definition dict_get :: "'v dict \<Rightarrow> string \<Rightarrow> 'v option" where
  "dict_get d k = map_of d k"

text \<open>
  Modelled from the spec: the class \<open>Module\<close>, whose source is not among the files. A
  module owns named parameters, named buffers and named submodules (the attributes
  \<open>_parameters\<close>, \<open>_buffers\<close> and \<open>_modules\<close>); a parameter or a buffer is a tensor, or
  \<open>None\<close>. \<open>named_parameters\<close> walks the tree and yields every parameter under its
  flat name, the names of the submodules on the way joined with dots.
\<close>

datatype Module =
  Module (m_parameters: "real Tensor option dict")
         (m_buffers: "real Tensor option dict")
         (m_modules: "Module dict")

definition prefixed :: "string \<Rightarrow> 'v dict \<Rightarrow> 'v dict" where
  "prefixed pre d = map (\<lambda>kv. (pre @ fst kv, snd kv)) d"

fun named_parameters :: "Module \<Rightarrow> real Tensor option dict"
  and named_parameters_of :: "Module dict \<Rightarrow> real Tensor option dict" where
  "named_parameters (Module ps bs ms) = ps @ named_parameters_of ms"
| "named_parameters_of [] = []"
| "named_parameters_of ((n, m) # rest) =
     prefixed (n @ ''.'') (named_parameters m) @ named_parameters_of rest"

text \<open>
  Modelled from the spec: \<open>Module.load_state_dict\<close>. For each entry of the state dict it
  finds the parameter or buffer of that flat name and overwrites its array, raising on a
  shape mismatch. What happens to a key without a leaf and to a leaf without a key is a
  configuration choice in the spec: \<open>strict\<close> raises, otherwise both are passed over.
\<close>

fun load_leaves ::
  "real ndarray dict \<Rightarrow> string \<Rightarrow> real Tensor option dict
     \<Rightarrow> error + real Tensor option dict" where
  "load_leaves sd pre [] = Inr []"
| "load_leaves sd pre ((name, None) # rest) =
     (case load_leaves sd pre rest of
        Inl e \<Rightarrow> Inl e
      | Inr rest' \<Rightarrow> Inr ((name, None) # rest'))"
| "load_leaves sd pre ((name, Some t) # rest) =
     (case dict_get sd (pre @ name) of
        None \<Rightarrow>
          (case load_leaves sd pre rest of
             Inl e \<Rightarrow> Inl e
           | Inr rest' \<Rightarrow> Inr ((name, Some t) # rest'))
      | Some a \<Rightarrow>
          if shape a \<noteq> shape (data t) then Inl (ValueError (''shape mismatch for '' @ pre @ name))
          else (case load_leaves sd pre rest of
                  Inl e \<Rightarrow> Inl e
                | Inr rest' \<Rightarrow> Inr ((name, Some (t\<lparr>data := a\<rparr>)) # rest')))"

fun load_tree :: "real ndarray dict \<Rightarrow> string \<Rightarrow> Module \<Rightarrow> error + Module"
  and load_trees :: "real ndarray dict \<Rightarrow> string \<Rightarrow> Module dict \<Rightarrow> error + Module dict" where
  "load_tree sd pre (Module ps bs ms) =
     (case load_leaves sd pre ps of
        Inl e \<Rightarrow> Inl e
      | Inr ps' \<Rightarrow>
          (case load_leaves sd pre bs of
             Inl e \<Rightarrow> Inl e
           | Inr bs' \<Rightarrow>
               (case load_trees sd pre ms of
                  Inl e \<Rightarrow> Inl e
                | Inr ms' \<Rightarrow> Inr (Module ps' bs' ms'))))"
| "load_trees sd pre [] = Inr []"
| "load_trees sd pre ((n, m) # rest) =
     (case load_tree sd (pre @ n @ ''.'') m of
        Inl e \<Rightarrow> Inl e
      | Inr m' \<Rightarrow>
          (case load_trees sd pre rest of
             Inl e \<Rightarrow> Inl e
           | Inr rest' \<Rightarrow> Inr ((n, m') # rest')))"

fun leaf_names :: "Module \<Rightarrow> string list"
  and leaf_names_of :: "Module dict \<Rightarrow> string list" where
  "leaf_names (Module ps bs ms) =
     map fst (filter (\<lambda>kv. snd kv \<noteq> None) ps) @ map fst (filter (\<lambda>kv. snd kv \<noteq> None) bs)
     @ leaf_names_of ms"
| "leaf_names_of [] = []"
| "leaf_names_of ((n, m) # rest) = map ((@) (n @ ''.'')) (leaf_names m) @ leaf_names_of rest"

definition Module_load_state_dict :: "bool \<Rightarrow> Module \<Rightarrow> real ndarray dict \<Rightarrow> error + Module" where
  "Module_load_state_dict strict model sd =
     (if strict \<and> set (map fst sd) \<noteq> set (leaf_names model)
      then Inl (KeyError ''missing or unexpected keys in state dict'')
      else load_tree sd [] model)"

text \<open>
  \<open>ModelSaver.get_state_dict\<close>, from the source: the arrays of the named parameters,
  then the arrays of the buffers in the model's own \<open>_buffers\<close>.
\<close>

fun put_arrays :: "real Tensor option dict \<Rightarrow> real ndarray dict \<Rightarrow> real ndarray dict" where
  \<comment> \<open>\<open>for name, t in ...: if t is not None: state_dict[name] = t.data\<close>\<close>
  "put_arrays [] sd = sd"
| "put_arrays ((name, None) # rest) sd = put_arrays rest sd"
| "put_arrays ((name, Some t) # rest) sd = put_arrays rest (dict_set name (data t) sd)"

definition get_state_dict :: "Module \<Rightarrow> real ndarray dict" where
  "get_state_dict model = put_arrays (m_buffers model) (put_arrays (named_parameters model) [])"

text \<open>
  Modelled from the spec: an optimizer, known only by the state dict it gives and takes.
  A checkpoint file holds the pickled dictionary; pickling is taken to give back the
  value it was given, and the file system is a map from paths to what was written.
\<close>

record Optimizer =
  opt_state :: "real dict"

record 'v checkpoint =
  model_state_dict :: "real ndarray dict"
  optimizer_state_dict :: "real dict option"
  epoch :: "int option"
  loss :: "real option"
  additional_data :: "'v dict"

record 'v checkpoint_info =
  info_epoch :: "int option"
  info_loss :: "real option"
  info_additional_data :: "'v dict"

type_synonym 'v files = "string \<rightharpoonup> 'v checkpoint"

definition save_checkpoint ::
  "'v files \<Rightarrow> string \<Rightarrow> Module \<Rightarrow> Optimizer option \<Rightarrow> int option \<Rightarrow> real option
     \<Rightarrow> 'v dict option \<Rightarrow> 'v files" where
  "save_checkpoint fs path model optimizer ep ls additional =
     fs(path \<mapsto>
        \<lparr>model_state_dict = get_state_dict model,
         optimizer_state_dict =
           (case optimizer of None \<Rightarrow> None | Some opt \<Rightarrow> Some (opt_state opt)),
         epoch = ep,
         loss = ls,
         additional_data = (case additional of None \<Rightarrow> [] | Some d \<Rightarrow> d)\<rparr>)"

definition load_checkpoint ::
  "bool \<Rightarrow> 'v files \<Rightarrow> string \<Rightarrow> Module \<Rightarrow> Optimizer option
     \<Rightarrow> error + (Module \<times> Optimizer option \<times> 'v checkpoint_info)" where
  "load_checkpoint strict fs path model optimizer =
     (case fs path of
        None \<Rightarrow> Inl (FileNotFoundError path)
      | Some ck \<Rightarrow>
          (case Module_load_state_dict strict model (model_state_dict ck) of
             Inl e \<Rightarrow> Inl e
           | Inr model' \<Rightarrow>
               Inr (model',
                    (case optimizer of
                       None \<Rightarrow> None
                     | Some opt \<Rightarrow>
                         (case optimizer_state_dict ck of
                            None \<Rightarrow> Some opt
                          | Some osd \<Rightarrow>
                              if osd = [] then Some opt else Some (opt\<lparr>opt_state := osd\<rparr>))),
                    \<lparr>info_epoch = epoch ck, info_loss = loss ck,
                     info_additional_data = additional_data ck\<rparr>)))"

section \<open>data/samplers.py\<close>

text \<open>
  A sampler holds its data source, or \<open>None\<close>. The samplers only ever take the length
  of the data source, so a sized object is modelled as a list.
\<close>

record 'a Sampler =
  data_source :: "'a list option"

definition Sampler_init :: "'a list option \<Rightarrow> 'a Sampler" where
  "Sampler_init ds = \<lparr>data_source = ds\<rparr>"

definition SequentialSampler_iter :: "'a Sampler \<Rightarrow> error + nat list" where
  "SequentialSampler_iter self =
     (case data_source self of
        None \<Rightarrow> Inl (ValueError ''data_source cannot be None'')
      | Some ds \<Rightarrow> Inr [0..<length ds])"

definition SequentialSampler_len :: "'a Sampler \<Rightarrow> error + nat" where
  "SequentialSampler_len self =
     (case data_source self of
        None \<Rightarrow> Inl (ValueError ''data_source cannot be None'')
      | Some ds \<Rightarrow> Inr (length ds))"

definition RandomSampler_iter :: "'a Sampler \<Rightarrow> rng \<Rightarrow> (error + nat list) \<times> rng" where
  "RandomSampler_iter self r =
     (case data_source self of
        None \<Rightarrow> (Inl (ValueError ''data_source cannot be None''), r)
      | Some ds \<Rightarrow>
          (case np_random_permutation (length ds) r of
             (indices, r') \<Rightarrow> (Inr indices, r')))"

definition RandomSampler_len :: "'a Sampler \<Rightarrow> error + nat" where
  "RandomSampler_len self =
     (case data_source self of
        None \<Rightarrow> Inl (ValueError ''data_source cannot be None'')
      | Some ds \<Rightarrow> Inr (length ds))"

section \<open>Theorems\<close>

subsection \<open>Indexing arrays\<close>

lemma length_ndindex: "length (ndindex shp) = prod_list shp"
  by (induction shp) (simp_all add: length_concat o_def sum_list_triv)

lemma nth_concat_uniform:
  assumes "\<And>xs. xs \<in> set xss \<Longrightarrow> length xs = k" and "i < length xss" and "j < k"
  shows "concat xss ! (i * k + j) = xss ! i ! j"
  using assms
proof (induction xss arbitrary: i)
  case Nil
  then show ?case by simp
next
  case (Cons xs xss)
  have len: "length xs = k" using Cons.prems(1) by simp
  show ?case
  proof (cases i)
    case 0
    then show ?thesis using len Cons.prems(3) by (simp add: nth_append)
  next
    case (Suc i')
    have "concat xss ! (i' * k + j) = xss ! i' ! j"
      using Cons.IH [of i'] Cons.prems Suc by simp
    moreover have "Suc i' * k + j = k + (i' * k + j)" by simp
    ultimately show ?thesis using Suc len by (simp add: nth_append del: mult_Suc)
  qed
qed

lemma valid_index_Nil [simp]: "valid_index [] idx = (idx = [])"
  by (auto simp add: valid_index_def)

lemma valid_index_Cons:
  "valid_index (d # ds) idx = (\<exists>i is. idx = i # is \<and> i < d \<and> valid_index ds is)"
  by (cases idx) (auto simp add: valid_index_def)

lemma offset_Cons [simp]: "offset (i # is) (s # ss) = i * s + offset is ss"
  by (simp add: offset_def)

lemma offset_Nil [simp]: "offset [] ss = 0" "offset is [] = 0"
  by (simp_all add: offset_def)

lemma offset_bound:
  "valid_index shp idx \<Longrightarrow> offset idx (strides shp) < prod_list shp"
proof (induction shp arbitrary: idx)
  case Nil
  then show ?case by simp
next
  case (Cons d ds)
  then obtain i "is" where idx: "idx = i # is" "i < d" "valid_index ds is"
    by (auto simp add: valid_index_Cons)
  have "offset is (strides ds) < prod_list ds" using Cons.IH idx(3) by simp
  moreover have "i * prod_list ds + prod_list ds \<le> d * prod_list ds"
  proof -
    have "Suc i * prod_list ds \<le> d * prod_list ds"
      using idx(2) by (intro mult_le_mono1) simp
    then show ?thesis by simp
  qed
  ultimately show ?case using idx(1) by simp
qed

lemma ndindex_nth_offset:
  "valid_index shp idx \<Longrightarrow> ndindex shp ! offset idx (strides shp) = idx"
proof (induction shp arbitrary: idx)
  case Nil
  then show ?case by simp
next
  case (Cons d ds)
  then obtain i "is" where idx: "idx = i # is" "i < d" "valid_index ds is"
    by (auto simp add: valid_index_Cons)
  let ?xss = "map (\<lambda>i. map ((#) i) (ndindex ds)) [0..<d]"
  have j: "offset is (strides ds) < prod_list ds" using offset_bound idx(3) by simp
  have "concat ?xss ! (i * prod_list ds + offset is (strides ds))
        = ?xss ! i ! offset is (strides ds)"
    by (rule nth_concat_uniform) (use idx(2) j in \<open>auto simp add: length_ndindex\<close>)
  also have "\<dots> = i # (ndindex ds ! offset is (strides ds))"
    using idx(2) j by (simp add: length_ndindex)
  also have "\<dots> = idx" using Cons.IH idx by simp
  finally show ?case using idx(1) by simp
qed

lemma getitem_view:
  "valid_index shp idx \<Longrightarrow> getitem (view a shp strd) idx = items a ! offset idx strd"
  by (simp add: getitem_def view_def offset_bound length_ndindex ndindex_nth_offset)

lemma concat_blocks_upt:
  "concat (map (\<lambda>i. map (\<lambda>j. i * k + j) [0..<k]) [0..<d]) = [0..<d * k]"
proof (induction d)
  case 0
  then show ?case by simp
next
  case (Suc d)
  have blk: "map (\<lambda>j. d * k + j) [0..<k] = [d * k..<d * k + k]"
    using map_add_upt [of "d * k" k] by (simp add: add.commute)
  have "[0..<d * k + k] = [0..<d * k] @ [d * k..<d * k + k]"
    by (rule upt_add_eq_append) simp
  moreover have "Suc d * k = d * k + k" by simp
  ultimately have split: "[0..<Suc d * k] = [0..<d * k] @ [d * k..<d * k + k]"
    by (simp only:)
  have "concat (map (\<lambda>i. map (\<lambda>j. i * k + j) [0..<k]) [0..<Suc d])
        = concat (map (\<lambda>i. map (\<lambda>j. i * k + j) [0..<k]) [0..<d])
          @ map (\<lambda>j. d * k + j) [0..<k]"
    by simp
  then show ?case by (simp only: Suc.IH blk split)
qed

lemma offsets_ndindex:
  "map (\<lambda>idx. offset idx (strides shp)) (ndindex shp) = [0..<prod_list shp]"
proof (induction shp)
  case Nil
  then show ?case by simp
next
  case (Cons d ds)
  have "map (\<lambda>idx. offset idx (strides (d # ds))) (ndindex (d # ds))
        = concat (map (\<lambda>i. map (\<lambda>is. i * prod_list ds + offset is (strides ds)) (ndindex ds))
                    [0..<d])"
    by (simp add: map_concat o_def)
  also have "\<dots> = concat (map (\<lambda>i. map (\<lambda>j. i * prod_list ds + j)
                               (map (\<lambda>is. offset is (strides ds)) (ndindex ds))) [0..<d])"
    by (simp add: o_def)
  also have "\<dots> = [0..<d * prod_list ds]"
    by (simp only: Cons.IH concat_blocks_upt)
  finally show ?case by simp
qed

lemma view_strides_id:
  "wf_ndarray a \<Longrightarrow> view a (shape a) (strides (shape a)) = a"
proof -
  assume wf: "wf_ndarray a"
  have "map (\<lambda>idx. items a ! offset idx (strides (shape a))) (ndindex (shape a))
        = map ((!) (items a)) (map (\<lambda>idx. offset idx (strides (shape a))) (ndindex (shape a)))"
    by (simp add: o_def)
  also have "\<dots> = items a"
  proof -
    have "map ((!) (items a)) [0..<length (items a)] = items a" by (rule map_nth)
    then show ?thesis using wf by (simp add: offsets_ndindex wf_ndarray_def)
  qed
  finally show ?thesis by (simp add: view_def)
qed

subsection \<open>Elementwise operations on arrays of one shape\<close>

lemma ndindex_valid: "idx \<in> set (ndindex shp) \<Longrightarrow> valid_index shp idx"
  by (induction shp arbitrary: idx) (auto simp add: valid_index_Cons)

lemma broadcast_shapes_rev_same: "broadcast_shapes_rev xs xs = Some xs"
  by (induction xs) simp_all

lemma broadcast_shapes_same: "broadcast_shapes shp shp = Some shp"
  by (simp add: broadcast_shapes_def broadcast_shapes_rev_same)

lemma broadcast_strides_Cons_same:
  "broadcast_strides (d # ds) (d # ds)
   = (if d = 1 then 0 else prod_list ds) # broadcast_strides ds ds"
  by (simp add: broadcast_strides_def)

lemma offset_broadcast_same:
  "valid_index shp idx \<Longrightarrow> offset idx (broadcast_strides shp shp) = offset idx (strides shp)"
proof (induction shp arbitrary: idx)
  case Nil
  then show ?case by simp
next
  case (Cons d ds)
  then obtain i "is" where idx: "idx = i # is" "i < d" "valid_index ds is"
    by (auto simp add: valid_index_Cons)
  then show ?case using Cons.IH [of "is"] by (auto simp add: broadcast_strides_Cons_same)
qed

lemma view_broadcast_same:
  "wf_ndarray a \<Longrightarrow> view a (shape a) (broadcast_strides (shape a) (shape a)) = a"
proof -
  assume wf: "wf_ndarray a"
  have "map (\<lambda>idx. items a ! offset idx (broadcast_strides (shape a) (shape a)))
          (ndindex (shape a))
        = map (\<lambda>idx. items a ! offset idx (strides (shape a))) (ndindex (shape a))"
    by (rule map_cong) (simp_all add: ndindex_valid offset_broadcast_same)
  then have "view a (shape a) (broadcast_strides (shape a) (shape a))
             = view a (shape a) (strides (shape a))"
    by (simp add: view_def)
  then show ?thesis using wf by (simp add: view_strides_id)
qed

lemma np_binary_same_shape:
  assumes "wf_ndarray a" and "wf_ndarray b" and "shape b = shape a"
  shows "np_binary f a b = Inr \<lparr>shape = shape a, items = map2 f (items a) (items b)\<rparr>"
proof -
  have "view b (shape a) (broadcast_strides (shape b) (shape a)) = b"
    using view_broadcast_same [OF assms(2)] assms(3) by simp
  then show ?thesis
    using view_broadcast_same [OF assms(1)] assms(3)
    by (simp add: np_binary_def broadcast_shapes_same)
qed

subsection \<open>Samplers\<close>

lemma length_swap [simp]: "length (swap xs i j) = length xs"
  by (simp add: swap_def)

lemma shuffle_from_length: "length (fst (shuffle_from i xs r)) = length xs"
  by (induction i xs r rule: shuffle_from.induct) (simp_all split: prod.splits)

text \<open>
  C9. Building a sequential or a random sampler on an absent data source gives a sampler
  (the constructor only stores the argument); iterating over it and asking for its length
  both raise \<open>ValueError\<close>, and a random sampler raises before it draws anything. On a
  data source that is present, iteration and the length query return: the sequential
  sampler gives \<open>0, ..., n - 1\<close>, the random sampler a list of \<open>n\<close> indices, and both
  give the length \<open>n\<close>.
\<close>

theorem sampler_absent_source_fails_at_use:
  "data_source (Sampler_init None) = None
   \<and> SequentialSampler_iter (Sampler_init None) = Inl (ValueError ''data_source cannot be None'')
   \<and> SequentialSampler_len (Sampler_init None) = Inl (ValueError ''data_source cannot be None'')
   \<and> RandomSampler_iter (Sampler_init None) r = (Inl (ValueError ''data_source cannot be None''), r)
   \<and> RandomSampler_len (Sampler_init None) = Inl (ValueError ''data_source cannot be None'')
   \<and> SequentialSampler_iter (Sampler_init (Some ds)) = Inr [0..<length ds]
   \<and> SequentialSampler_len (Sampler_init (Some ds)) = Inr (length ds)
   \<and> (\<exists>indices. fst (RandomSampler_iter (Sampler_init (Some ds)) r) = Inr indices
          \<and> length indices = length ds)
   \<and> RandomSampler_len (Sampler_init (Some ds)) = Inr (length ds)"
proof -
  have "length (fst (np_random_permutation (length ds) r)) = length ds"
    by (simp add: np_random_permutation_def shuffle_from_length)
  then show ?thesis
    by (auto simp add: Sampler_init_def SequentialSampler_iter_def SequentialSampler_len_def
        RandomSampler_iter_def RandomSampler_len_def split: prod.splits)
qed

subsection \<open>Comparisons\<close>

text \<open>
  C4. For each of the six comparison operations, \<open>backward\<close> on any context, any
  \<open>grad_output\<close> and any \<open>grad_dict\<close> returns without an error and leaves \<open>grad_dict\<close>
  as it was: no input receives a contribution, whatever its \<open>requires_grad\<close> flag.
\<close>

theorem comparison_backward_is_noop:
  "comparison_backward cls ctx grad_output grad_dict = Inr grad_dict"
  by (simp add: comparison_backward_def Compare_backward_def)

subsection \<open>The flag of a tensor built by forward\<close>

lemma Transpose_forward_flag:
  "snd (Transpose_forward dflt fresh ctx x axes) = Inr y \<Longrightarrow> requires_grad y = dflt"
  by (auto simp add: Transpose_forward_def Let_def Tensor_init_def split: option.splits sum.splits)

lemma Compare_compare_flag:
  "Compare_compare dflt fresh op x1 x2 = Inr z \<Longrightarrow> requires_grad z = dflt"
  by (auto simp add: Compare_compare_def Let_def Tensor_init_def split: sum.splits)

lemma comparison_forward_flag:
  "comparison_forward cls dflt fresh ctx x1 x2 = Inr z \<Longrightarrow> requires_grad z = dflt"
  by (cases cls)
     (simp_all add: Greater_forward_def GreaterEqual_forward_def Less_forward_def
        LessEqual_forward_def Equal_forward_def NotEqual_forward_def Compare_compare_flag)

lemma Transpose_forward_ignores_flag:
  "snd (Transpose_forward dflt fresh ctx (IsTensor (x\<lparr>requires_grad := b\<rparr>)) axes)
   = snd (Transpose_forward dflt fresh ctx (IsTensor x) axes)"
  by (simp add: Transpose_forward_def Let_def to_Tensor_def split: option.splits)

lemma Compare_compare_ignores_flags:
  "Compare_compare dflt fresh op (IsTensor (x1\<lparr>requires_grad := b1\<rparr>))
       (IsTensor (x2\<lparr>requires_grad := b2\<rparr>))
   = Compare_compare dflt fresh op (IsTensor x1) (IsTensor x2)"
  by (simp add: Compare_compare_def Let_def to_Tensor_def)

lemma comparison_forward_ignores_flags:
  "comparison_forward cls dflt fresh ctx (IsTensor (x1\<lparr>requires_grad := b1\<rparr>))
       (IsTensor (x2\<lparr>requires_grad := b2\<rparr>))
   = comparison_forward cls dflt fresh ctx (IsTensor x1) (IsTensor x2)"
  by (cases cls)
     (simp_all add: Greater_forward_def GreaterEqual_forward_def Less_forward_def
        LessEqual_forward_def Equal_forward_def NotEqual_forward_def
        Compare_compare_ignores_flags)

lemma Transpose_forward_int_2:
  "snd (Transpose_forward False 5 \<lparr>saved_tensors = [], saved_arguments = Map.empty\<rparr>
         (IsTensor \<lparr>tid = 3, data = \<lparr>shape = [2], items = [1, 2::int]\<rparr>, requires_grad = True\<rparr>)
         None)
       = Inr \<lparr>tid = 5, data = \<lparr>shape = [2], items = [1, 2]\<rparr>, requires_grad = False\<rparr>"
  by code_simp

lemma Greater_forward_int_2:
  "Greater_forward False 5 \<lparr>saved_tensors = [], saved_arguments = Map.empty\<rparr>
         (IsTensor \<lparr>tid = 3, data = \<lparr>shape = [2], items = [1, 2::int]\<rparr>, requires_grad = True\<rparr>)
         (IsTensor \<lparr>tid = 4, data = \<lparr>shape = [2], items = [0, 5::int]\<rparr>, requires_grad = True\<rparr>)
       = Inr \<lparr>tid = 5, data = \<lparr>shape = [2], items = [True, False]\<rparr>, requires_grad = False\<rparr>"
  by code_simp

lemma Less_forward_int_2:
  "Less_forward False 5 \<lparr>saved_tensors = [], saved_arguments = Map.empty\<rparr>
         (IsTensor \<lparr>tid = 3, data = \<lparr>shape = [2], items = [1, 2::int]\<rparr>, requires_grad = True\<rparr>)
         (IsTensor \<lparr>tid = 4, data = \<lparr>shape = [2], items = [0, 5::int]\<rparr>, requires_grad = False\<rparr>)
       = Inr \<lparr>tid = 5, data = \<lparr>shape = [2], items = [False, True]\<rparr>, requires_grad = False\<rparr>"
  by code_simp

text \<open>
  C2, as the code has it. The claim says that the tensor \<open>forward\<close> produces requires a
  gradient exactly when an input does. \<open>Transpose.forward\<close> and \<open>Compare._compare\<close>
  build their result with \<open>Tensor(array)\<close> and never read an input's flag: an input
  that requires a gradient gives, under a constructor default of \<open>False\<close>, a result
  that does not.
\<close>

theorem forward_output_flag_counterexample:
  "requires_grad \<lparr>tid = 3, data = \<lparr>shape = [2], items = [1, 2::int]\<rparr>, requires_grad = True\<rparr>
   \<and> snd (Transpose_forward False 5 \<lparr>saved_tensors = [], saved_arguments = Map.empty\<rparr>
         (IsTensor \<lparr>tid = 3, data = \<lparr>shape = [2], items = [1, 2::int]\<rparr>, requires_grad = True\<rparr>)
         None)
       = Inr \<lparr>tid = 5, data = \<lparr>shape = [2], items = [1, 2]\<rparr>, requires_grad = False\<rparr>
   \<and> Greater_forward False 5 \<lparr>saved_tensors = [], saved_arguments = Map.empty\<rparr>
         (IsTensor \<lparr>tid = 3, data = \<lparr>shape = [2], items = [1, 2::int]\<rparr>, requires_grad = True\<rparr>)
         (IsTensor \<lparr>tid = 4, data = \<lparr>shape = [2], items = [0, 5::int]\<rparr>, requires_grad = True\<rparr>)
       = Inr \<lparr>tid = 5, data = \<lparr>shape = [2], items = [True, False]\<rparr>, requires_grad = False\<rparr>"
  by (simp add: Transpose_forward_int_2 Greater_forward_int_2)

text \<open>
  C2, amended. Whenever \<open>Transpose.forward\<close> or the \<open>forward\<close> of a comparison returns
  a tensor, the tensor's \<open>requires_grad\<close> is the default of the \<open>Tensor\<close> constructor,
  and the result is the same whatever the \<open>requires_grad\<close> flags of the input tensors
  are.
\<close>

theorem forward_output_flag_is_constructor_default:
  "(snd (Transpose_forward dflt fresh ctx x axes) = Inr y \<longrightarrow> requires_grad y = dflt)
   \<and> (comparison_forward cls dflt fresh ctx' x1 x2 = Inr z \<longrightarrow> requires_grad z = dflt)
   \<and> snd (Transpose_forward dflt fresh ctx (IsTensor (t\<lparr>requires_grad := b\<rparr>)) axes)
       = snd (Transpose_forward dflt fresh ctx (IsTensor t) axes)
   \<and> comparison_forward cls dflt fresh ctx' (IsTensor (t1\<lparr>requires_grad := b1\<rparr>))
         (IsTensor (t2\<lparr>requires_grad := b2\<rparr>))
       = comparison_forward cls dflt fresh ctx' (IsTensor t1) (IsTensor t2)"
  by (intro conjI impI)
     (simp_all add: Transpose_forward_flag comparison_forward_flag
        Transpose_forward_ignores_flag comparison_forward_ignores_flags)

theorem forward_output_flag_is_constructor_default_witness:
  "snd (Transpose_forward False 5 \<lparr>saved_tensors = [], saved_arguments = Map.empty\<rparr>
         (IsTensor \<lparr>tid = 3, data = \<lparr>shape = [2], items = [1, 2::int]\<rparr>, requires_grad = True\<rparr>)
         None)
     = Inr \<lparr>tid = 5, data = \<lparr>shape = [2], items = [1, 2]\<rparr>, requires_grad = False\<rparr>
   \<and> requires_grad \<lparr>tid = 5, data = \<lparr>shape = [2], items = [1, 2::int]\<rparr>, requires_grad = False\<rparr>
       = False
   \<and> comparison_forward Less False 5 \<lparr>saved_tensors = [], saved_arguments = Map.empty\<rparr>
         (IsTensor \<lparr>tid = 3, data = \<lparr>shape = [2], items = [1, 2::int]\<rparr>, requires_grad = True\<rparr>)
         (IsTensor \<lparr>tid = 4, data = \<lparr>shape = [2], items = [0, 5::int]\<rparr>, requires_grad = False\<rparr>)
       = Inr \<lparr>tid = 5, data = \<lparr>shape = [2], items = [False, True]\<rparr>, requires_grad = False\<rparr>
   \<and> requires_grad
         \<lparr>tid = 5, data = \<lparr>shape = [2], items = [False, True]\<rparr>, requires_grad = False\<rparr>
       = False"
  using forward_output_flag_is_constructor_default
    [where dflt = False and fresh = 5
       and ctx = "\<lparr>saved_tensors = [], saved_arguments = Map.empty\<rparr>"
       and x = "IsTensor \<lparr>tid = 3, data = \<lparr>shape = [2], items = [1, 2::int]\<rparr>,
                         requires_grad = True\<rparr>"
       and axes = None
       and y = "\<lparr>tid = 5, data = \<lparr>shape = [2], items = [1, 2]\<rparr>, requires_grad = False\<rparr>"
       and cls = Less
       and ctx' = "\<lparr>saved_tensors = [], saved_arguments = Map.empty\<rparr>"
       and ?x1.0 = "IsTensor \<lparr>tid = 3, data = \<lparr>shape = [2], items = [1, 2::int]\<rparr>,
                            requires_grad = True\<rparr>"
       and ?x2.0 = "IsTensor \<lparr>tid = 4, data = \<lparr>shape = [2], items = [0, 5::int]\<rparr>,
                            requires_grad = False\<rparr>"
       and z = "\<lparr>tid = 5, data = \<lparr>shape = [2], items = [False, True]\<rparr>,
                 requires_grad = False\<rparr>"]
  by (simp add: Transpose_forward_int_2 Less_forward_int_2)

subsection \<open>Transpose.backward and the gradient mapping\<close>

lemma transpose_3_2: 
  "np_transpose \<lparr>shape = [3, 2], items = [10, 20, 30, 40, 50, 60::int]\<rparr> None
   = Inr \<lparr>shape = [2, 3], items = [10, 30, 50, 20, 40, 60]\<rparr>"
  by code_simp

lemma transpose_3_2_argsort: 
  "np_transpose \<lparr>shape = [3, 2], items = [10, 20, 30, 40, 50, 60::int]\<rparr>
     (Some (map int (np_argsort [1, 0])))
   = Inr \<lparr>shape = [2, 3], items = [10, 30, 50, 20, 40, 60]\<rparr>"
  by code_simp

lemma add_2_3:
  "np_binary (+) \<lparr>shape = [2, 3], items = [5, 5, 5, 5, 5, 5::int]\<rparr>
      \<lparr>shape = [2, 3], items = [10, 30, 50, 20, 40, 60]\<rparr>
   = Inr \<lparr>shape = [2, 3], items = [15, 35, 55, 25, 45, 65]\<rparr>"
  by code_simp

text \<open>
  C1, as the code has it. The claim says that \<open>Transpose.backward\<close> adds its
  contribution to an entry already present for \<open>id(x)\<close>. The code assigns: with the
  entry \<open>[[5, 5, 5], [5, 5, 5]]\<close> present, the entry afterwards is the contribution
  \<open>[[10, 30, 50], [20, 40, 60]]\<close> alone, not the sum \<open>[[15, 35, 55], [25, 45, 65]]\<close>.
\<close>

theorem Transpose_backward_accumulate_counterexample:
  "Transpose_backward
      \<lparr>saved_tensors = [\<lparr>tid = 7, data = \<lparr>shape = [2, 3], items = [1, 2, 3, 4, 5, 6::int]\<rparr>,
                          requires_grad = True\<rparr>],
       saved_arguments = [''axes'' \<mapsto> None]\<rparr>
      \<lparr>shape = [3, 2], items = [10, 20, 30, 40, 50, 60]\<rparr>
      [7 \<mapsto> \<lparr>shape = [2, 3], items = [5, 5, 5, 5, 5, 5]\<rparr>]
    = Inr [7 \<mapsto> \<lparr>shape = [2, 3], items = [10, 30, 50, 20, 40, 60]\<rparr>]
   \<and> np_binary (+) \<lparr>shape = [2, 3], items = [5, 5, 5, 5, 5, 5::int]\<rparr>
         \<lparr>shape = [2, 3], items = [10, 30, 50, 20, 40, 60]\<rparr>
       = Inr \<lparr>shape = [2, 3], items = [15, 35, 55, 25, 45, 65]\<rparr>
   \<and> [7 \<mapsto> \<lparr>shape = [2, 3], items = [10, 30, 50, 20, 40, 60::int]\<rparr>] (7::nat)
       \<noteq> Some \<lparr>shape = [2, 3], items = [15, 35, 55, 25, 45, 65]\<rparr>"
  by (simp add: Transpose_backward_def transpose_3_2 add_2_3)

text \<open>
  C1, amended. For a saved input tensor \<open>x\<close> with \<open>requires_grad\<close>, \<open>Transpose.backward\<close>
  sets \<open>grad_dict[id(x)]\<close> to its contribution, replacing whatever entry was there, and
  leaves every other entry as it was; it raises only if transposing \<open>grad_output\<close>
  raises.
\<close>

theorem Transpose_backward_overwrites:
  assumes "saved_tensors ctx = [x]" and "saved_arguments ctx ''axes'' = Some axes"
    and "requires_grad x"
  shows "Transpose_backward ctx grad_output grad_dict =
           (case np_transpose grad_output (map_option (map int \<circ> np_argsort) axes) of
              Inl e \<Rightarrow> Inl e
            | Inr g \<Rightarrow> Inr (grad_dict(tid x \<mapsto> g)))"
  using assms by (simp add: Transpose_backward_def split: option.splits)

theorem Transpose_backward_overwrites_witness:
  "Transpose_backward
      \<lparr>saved_tensors = [\<lparr>tid = 7, data = \<lparr>shape = [2, 3], items = [1, 2, 3, 4, 5, 6::int]\<rparr>,
                          requires_grad = True\<rparr>],
       saved_arguments = [''axes'' \<mapsto> Some [1, 0]]\<rparr>
      \<lparr>shape = [3, 2], items = [10, 20, 30, 40, 50, 60]\<rparr>
      [7 \<mapsto> \<lparr>shape = [2, 3], items = [5, 5, 5, 5, 5, 5]\<rparr>]
    = Inr [7 \<mapsto> \<lparr>shape = [2, 3], items = [10, 30, 50, 20, 40, 60]\<rparr>]"
  using Transpose_backward_overwrites
    [of "\<lparr>saved_tensors = [\<lparr>tid = 7, data = \<lparr>shape = [2, 3], items = [1, 2, 3, 4, 5, 6::int]\<rparr>,
                              requires_grad = True\<rparr>],
           saved_arguments = [''axes'' \<mapsto> Some [1, 0]]\<rparr>"
        "\<lparr>tid = 7, data = \<lparr>shape = [2, 3], items = [1, 2, 3, 4, 5, 6::int]\<rparr>,
           requires_grad = True\<rparr>"
        "Some [1, 0]"
        "\<lparr>shape = [3, 2], items = [10, 20, 30, 40, 50, 60]\<rparr>"
        "[7 \<mapsto> \<lparr>shape = [2, 3], items = [5, 5, 5, 5, 5, 5]\<rparr>]"]
  by (simp add: transpose_3_2_argsort)

subsection \<open>Dropout2d\<close>

lemma char_of_50: "char_of (50::nat) = CHR ''2''"
  by code_simp

text \<open>
  C10. In training mode \<open>Dropout2d.forward\<close> on a tensor whose number of dimensions is
  not 4 raises \<open>AssertionError\<close> and has drawn nothing: the random generator, the layer
  (its stored mask included) and the tensor are as before. In evaluation mode it returns
  the tensor it was given, whatever its number of dimensions, and changes nothing.
\<close>

theorem Dropout2d_forward_requires_4d:
  "(training self \<and> length (Tensor_shape x) \<noteq> 4 \<longrightarrow>
      Dropout2d_forward fresh self x r
      = (Inl (AssertionError
                (''expected 4D input, got '' @ str_nat (length (Tensor_shape x)) @ ''D input'')),
         self, x, r))
   \<and> (\<not> training self \<longrightarrow> Dropout2d_forward fresh self x r = (Inr x, self, x, r))"
  by (simp add: Dropout2d_forward_def)

theorem Dropout2d_forward_requires_4d_witness:
  "Dropout2d_forward 9
      \<lparr>drop_prob = 1 / 2, inplace = False, training = True, self_mask = None\<rparr>
      \<lparr>tid = 3, data = \<lparr>shape = [2, 3], items = [1, 2, 3, 4, 5, 6]\<rparr>, requires_grad = False\<rparr>
      (\<lambda>k. 0)
    = (Inl (AssertionError ''expected 4D input, got 2D input''),
       \<lparr>drop_prob = 1 / 2, inplace = False, training = True, self_mask = None\<rparr>,
       \<lparr>tid = 3, data = \<lparr>shape = [2, 3], items = [1, 2, 3, 4, 5, 6]\<rparr>, requires_grad = False\<rparr>,
       (\<lambda>k. 0))
   \<and> Dropout2d_forward 9
      \<lparr>drop_prob = 1 / 2, inplace = False, training = False, self_mask = None\<rparr>
      \<lparr>tid = 3, data = \<lparr>shape = [2, 3], items = [1, 2, 3, 4, 5, 6]\<rparr>, requires_grad = False\<rparr>
      (\<lambda>k. 0)
    = (Inr \<lparr>tid = 3, data = \<lparr>shape = [2, 3], items = [1, 2, 3, 4, 5, 6]\<rparr>,
             requires_grad = False\<rparr>,
       \<lparr>drop_prob = 1 / 2, inplace = False, training = False, self_mask = None\<rparr>,
       \<lparr>tid = 3, data = \<lparr>shape = [2, 3], items = [1, 2, 3, 4, 5, 6]\<rparr>, requires_grad = False\<rparr>,
       (\<lambda>k. 0))"
  using Dropout2d_forward_requires_4d
     [of "\<lparr>drop_prob = 1 / 2, inplace = False, training = True, self_mask = None\<rparr>"
         "\<lparr>tid = 3, data = \<lparr>shape = [2, 3], items = [1, 2, 3, 4, 5, 6]\<rparr>,
            requires_grad = False\<rparr>" 9 "\<lambda>k. 0"]
    Dropout2d_forward_requires_4d
     [of "\<lparr>drop_prob = 1 / 2, inplace = False, training = False, self_mask = None\<rparr>"
         "\<lparr>tid = 3, data = \<lparr>shape = [2, 3], items = [1, 2, 3, 4, 5, 6]\<rparr>,
            requires_grad = False\<rparr>" 9 "\<lambda>k. 0"]
  by (simp add: Tensor_shape_def char_of_50)

lemma wf_view: "wf_ndarray (view a shp strd)"
  by (simp add: wf_ndarray_def view_def length_ndindex)

lemma shape_view [simp]: "shape (view a shp strd) = shp"
  by (simp add: view_def)

lemma shape_np_scalar [simp]: "shape (np_scalar f a) = shape a"
  by (simp add: np_scalar_def)

lemma getitem_np_scalar:
  "wf_ndarray a \<Longrightarrow> valid_index (shape a) idx \<Longrightarrow>
     getitem (np_scalar f a) idx = f (getitem a idx)"
  using offset_bound [of "shape a" idx]
  by (simp add: getitem_def np_scalar_def wf_ndarray_def)

lemma np_binary_elementwise:
  assumes "shape a = shp" and "shape b = shp"
  shows "\<exists>c. np_binary f a b = Inr c \<and> shape c = shp \<and> wf_ndarray c
             \<and> (\<forall>idx. valid_index shp idx \<longrightarrow>
                    getitem c idx = f (getitem a idx) (getitem b idx))"
proof -
  let ?bs = "broadcast_strides shp shp"
  let ?c = "\<lparr>shape = shp, items = map2 f (items (view a shp ?bs)) (items (view b shp ?bs))\<rparr>"
  have "getitem ?c idx = f (getitem a idx) (getitem b idx)" if v: "valid_index shp idx" for idx
  proof -
    let ?o = "offset idx (strides shp)"
    have o: "?o < prod_list shp" using v by (rule offset_bound)
    have nd: "ndindex shp ! ?o = idx" using v by (rule ndindex_nth_offset)
    have bs: "offset idx ?bs = ?o" using v by (rule offset_broadcast_same)
    have "map2 f (items (view a shp ?bs)) (items (view b shp ?bs)) ! ?o
          = f (items a ! ?o) (items b ! ?o)"
      using o nd bs by (simp add: view_def length_ndindex)
    then show ?thesis using assms by (simp add: getitem_def)
  qed
  moreover have "wf_ndarray ?c"
    by (simp add: wf_ndarray_def view_def length_ndindex)
  moreover have "np_binary f a b = Inr ?c"
    using assms by (simp add: np_binary_def broadcast_shapes_same)
  ultimately show ?thesis by auto
qed

lemma channel_offset:
  assumes "b < (N::nat)" and "c < (C::nat)"
  shows "b * (if N = 1 then 0 else C) + c * (if C = 1 then 0 else 1) = b * C + c"
    and "b * C + c < N * C"
proof -
  show "b * (if N = 1 then 0 else C) + c * (if C = 1 then 0 else 1) = b * C + c"
    using assms by auto
  have "Suc b * C \<le> N * C" using assms(1) by (intro mult_le_mono1) simp
  then show "b * C + c < N * C" using assms(2) by simp
qed

lemma valid_index_4 [simp]:
  "valid_index [N, C, H, W] [b, c, h, w] = (b < N \<and> c < C \<and> h < H \<and> w < W)"
  by (simp add: valid_index_def)

lemma stretched_mask:
  assumes "shape km = [N, C, 1, 1]"
  shows "np_broadcast_to km [N, C, H, W]
         = Inr (view km [N, C, H, W]
                  [if N = 1 then 0 else C, if C = 1 then 0 else 1, 0, 0])"
  using assms by (simp add: np_broadcast_to_def broadcastable_def broadcast_strides_def)

lemma keep_mask_rand:
  "keep_mask p (fst (np_random_rand shp r))
   = \<lparr>shape = shp, items = map (\<lambda>k. if random_sample r k > p then 1 else 0) [0..<prod_list shp]\<rparr>"
  by (simp add: keep_mask_def np_random_rand_def np_scalar_def o_def)


lemma Dropout2d_forward_training:
  assumes "training self" and "Tensor_shape x = [N, C, H, W]"
  shows "Dropout2d_forward fresh self x r =
     (let km = keep_mask (drop_prob self) (fst (np_random_rand [N, C, 1, 1] r));
          r' = snd (np_random_rand [N, C, 1, 1] r);
          m = view km [N, C, H, W] [if N = 1 then 0 else C, if C = 1 then 0 else 1, 0, 0];
          self' = self\<lparr>self_mask := Some m\<rparr>;
          scale = dropout_scale (drop_prob self)
      in if inplace self then
           (case np_binary (*) (data x) (np_scalar (\<lambda>v. v * scale) m) of
              Inl e \<Rightarrow> (Inl e, self', x, r')
            | Inr d \<Rightarrow> (Inr (x\<lparr>data := d\<rparr>), self', x\<lparr>data := d\<rparr>, r'))
         else
           (case np_binary (*) (data x) m of
              Inl e \<Rightarrow> (Inl e, self', x, r')
            | Inr d \<Rightarrow>
                (Inr (Tensor_init fresh (np_scalar (\<lambda>v. v * scale) d) (requires_grad x)),
                 self', x, r')))"
proof -
  have "shape (keep_mask (drop_prob self) (fst (np_random_rand [N, C, 1, 1] r))) = [N, C, 1, 1]"
    by (simp add: keep_mask_rand)
  then have "np_broadcast_to (keep_mask (drop_prob self) (fst (np_random_rand [N, C, 1, 1] r)))
               [N, C, H, W]
             = Inr (view (keep_mask (drop_prob self) (fst (np_random_rand [N, C, 1, 1] r)))
                      [N, C, H, W] [if N = 1 then 0 else C, if C = 1 then 0 else 1, 0, 0])"
    by (rule stretched_mask)
  then show ?thesis
    using assms by (simp add: Dropout2d_forward_def case_prod_beta Let_def)
qed

text \<open>
  C6. In training mode, on a tensor of shape \<open>(N, C, H, W)\<close>, whatever the probability
  and whatever the generator draws, \<open>Dropout2d.forward\<close> returns a tensor and stores a
  mask of the input's shape such that, for each batch index \<open>b\<close> and channel \<open>c\<close>,
  one value \<open>k\<close>, 0 or 1, stands at every spatial position of the mask, and every
  element of that feature map of the output is the input's element times \<open>k\<close> times the
  scale: the feature map is dropped or kept as a whole.
\<close>

theorem Dropout2d_channel_atomic:
  assumes tr: "training self" and shp: "Tensor_shape x = [N, C, H, W]"
    and b: "b < N" and c: "c < C"
  shows "\<exists>m out k.
           fst (Dropout2d_forward fresh self x r) = Inr out
           \<and> self_mask (fst (snd (Dropout2d_forward fresh self x r))) = Some m
           \<and> shape m = [N, C, H, W]
           \<and> (k = 0 \<or> k = 1)
           \<and> (\<forall>h<H. \<forall>w<W.
                  getitem m [b, c, h, w] = k
                  \<and> getitem (data out) [b, c, h, w]
                      = getitem (data x) [b, c, h, w] * k * dropout_scale (drop_prob self))"
proof -
  define scale where "scale = dropout_scale (drop_prob self)"
  define km where "km = keep_mask (drop_prob self) (fst (np_random_rand [N, C, 1, 1] r))"
  define m where
    "m = view km [N, C, H, W] [if N = 1 then 0 else C, if C = 1 then 0 else 1, 0, 0]"
  define k where "k = items km ! (b * C + c)"
  have km_items:
    "items km = map (\<lambda>j. if random_sample r j > drop_prob self then 1 else 0) [0..<N * C]"
    by (simp add: km_def keep_mask_rand)
  have bc: "b * C + c < N * C" using b c by (rule channel_offset(2))
  have k01: "k = 0 \<or> k = 1" using bc by (simp add: k_def km_items)
  have shape_m: "shape m = [N, C, H, W]" by (simp add: m_def)
  have wf_m: "wf_ndarray m" by (simp add: m_def wf_view)
  have gm: "getitem m [b, c, h, w] = k" if "h < H" "w < W" for h w
  proof -
    have "getitem m [b, c, h, w]
          = items km ! offset [b, c, h, w] [if N = 1 then 0 else C, if C = 1 then 0 else 1, 0, 0]"
      unfolding m_def using b c that by (intro getitem_view) simp
    also have "\<dots> = items km ! (b * (if N = 1 then 0 else C) + c * (if C = 1 then 0 else 1))"
      by simp
    also have "\<dots> = k" using channel_offset(1) [OF b c] by (simp only: k_def)
    finally show ?thesis .
  qed
  have shape_x: "shape (data x) = [N, C, H, W]" using shp by (simp add: Tensor_shape_def)
  have fwd: "Dropout2d_forward fresh self x r =
     (if inplace self then
           (case np_binary (*) (data x) (np_scalar (\<lambda>v. v * scale) m) of
              Inl e \<Rightarrow> (Inl e, self\<lparr>self_mask := Some m\<rparr>, x, snd (np_random_rand [N, C, 1, 1] r))
            | Inr d \<Rightarrow> (Inr (x\<lparr>data := d\<rparr>), self\<lparr>self_mask := Some m\<rparr>, x\<lparr>data := d\<rparr>,
                        snd (np_random_rand [N, C, 1, 1] r)))
         else
           (case np_binary (*) (data x) m of
              Inl e \<Rightarrow> (Inl e, self\<lparr>self_mask := Some m\<rparr>, x, snd (np_random_rand [N, C, 1, 1] r))
            | Inr d \<Rightarrow>
                (Inr (Tensor_init fresh (np_scalar (\<lambda>v. v * scale) d) (requires_grad x)),
                 self\<lparr>self_mask := Some m\<rparr>, x, snd (np_random_rand [N, C, 1, 1] r))))"
    unfolding Dropout2d_forward_training [OF tr shp] Let_def scale_def m_def km_def ..
  show ?thesis
  proof (cases "inplace self")
    case True
    obtain d where d: "np_binary (*) (data x) (np_scalar (\<lambda>v. v * scale) m) = Inr d"
      and gd: "\<And>idx. valid_index [N, C, H, W] idx \<Longrightarrow>
                 getitem d idx = getitem (data x) idx * getitem (np_scalar (\<lambda>v. v * scale) m) idx"
      using np_binary_elementwise [of "data x" "[N, C, H, W]" "np_scalar (\<lambda>v. v * scale) m" "(*)"]
        shape_x shape_m by auto
    have "getitem d [b, c, h, w] = getitem (data x) [b, c, h, w] * k * scale"
      if "h < H" "w < W" for h w
    proof -
      have v: "valid_index [N, C, H, W] [b, c, h, w]" using b c that by simp
      have "getitem (np_scalar (\<lambda>v. v * scale) m) [b, c, h, w] = getitem m [b, c, h, w] * scale"
        using wf_m v shape_m by (simp add: getitem_np_scalar)
      then show ?thesis using gd [OF v] gm [OF that] by simp
    qed
    then show ?thesis
      using True d k01 gm shape_m by (auto simp add: fwd scale_def)
  next
    case False
    obtain d where d: "np_binary (*) (data x) m = Inr d"
      and sd: "shape d = [N, C, H, W]" and wd: "wf_ndarray d"
      and gd: "\<And>idx. valid_index [N, C, H, W] idx \<Longrightarrow>
                 getitem d idx = getitem (data x) idx * getitem m idx"
      using np_binary_elementwise [of "data x" "[N, C, H, W]" m "(*)"] shape_x shape_m by auto
    have "getitem (np_scalar (\<lambda>v. v * scale) d) [b, c, h, w]
          = getitem (data x) [b, c, h, w] * k * scale"
      if "h < H" "w < W" for h w
    proof -
      have v: "valid_index [N, C, H, W] [b, c, h, w]" using b c that by simp
      have "getitem (np_scalar (\<lambda>v. v * scale) d) [b, c, h, w] = getitem d [b, c, h, w] * scale"
        using wd v sd by (simp add: getitem_np_scalar)
      then show ?thesis using gd [OF v] gm [OF that] by simp
    qed
    then show ?thesis
      using False d k01 gm shape_m by (auto simp add: fwd scale_def Tensor_init_def)
  qed
qed


theorem Dropout2d_channel_atomic_witness:
  "training \<lparr>drop_prob = 1 / 2, inplace = False, training = True, self_mask = None\<rparr>
   \<and> Tensor_shape \<lparr>tid = 3, data = \<lparr>shape = [2, 2, 2, 2],
                       items = [1, 2, 3, 4, 5, 6, 7, 8, 9, 10, 11, 12, 13, 14, 15, 16::real]\<rparr>,
                    requires_grad = False\<rparr> = [2, 2, 2, 2]
   \<and> (\<exists>m out k.
         fst (Dropout2d_forward 9
                \<lparr>drop_prob = 1 / 2, inplace = False, training = True, self_mask = None\<rparr>
                \<lparr>tid = 3, data = \<lparr>shape = [2, 2, 2, 2],
                     items = [1, 2, 3, 4, 5, 6, 7, 8, 9, 10, 11, 12, 13, 14, 15, 16::real]\<rparr>,
                   requires_grad = False\<rparr>
                (\<lambda>j. j * 2 ^ 52)) = Inr out
         \<and> self_mask (fst (snd (Dropout2d_forward 9
                \<lparr>drop_prob = 1 / 2, inplace = False, training = True, self_mask = None\<rparr>
                \<lparr>tid = 3, data = \<lparr>shape = [2, 2, 2, 2],
                     items = [1, 2, 3, 4, 5, 6, 7, 8, 9, 10, 11, 12, 13, 14, 15, 16::real]\<rparr>,
                   requires_grad = False\<rparr>
                (\<lambda>j. j * 2 ^ 52)))) = Some m
         \<and> shape m = [2, 2, 2, 2]
         \<and> (k = 0 \<or> k = 1)
         \<and> getitem m [0, 1, 0, 1] = k
         \<and> getitem m [0, 1, 1, 0] = k
         \<and> getitem (data out) [0, 1, 1, 0] = 7 * k * dropout_scale (1 / 2))"
proof -
  let ?self = "\<lparr>drop_prob = 1 / 2, inplace = False, training = True, self_mask = None\<rparr>"
  let ?x = "\<lparr>tid = 3, data = \<lparr>shape = [2, 2, 2, 2],
                 items = [1, 2, 3, 4, 5, 6, 7, 8, 9, 10, 11, 12, 13, 14, 15, 16::real]\<rparr>,
              requires_grad = False\<rparr>"
  have tr: "training ?self" by simp
  have shp: "Tensor_shape ?x = [2, 2, 2, 2]" by (simp add: Tensor_shape_def)
  have b: "(0::nat) < 2" and c: "(1::nat) < 2" by simp_all
  have x7: "getitem (data ?x) [0, 1, 1, 0] = 7" by code_simp
  obtain m out k where
    "fst (Dropout2d_forward 9 ?self ?x (\<lambda>j. j * 2 ^ 52)) = Inr out"
    "self_mask (fst (snd (Dropout2d_forward 9 ?self ?x (\<lambda>j. j * 2 ^ 52)))) = Some m"
    "shape m = [2, 2, 2, 2]" "k = 0 \<or> k = 1"
    "\<forall>h<2. \<forall>w<2. getitem m [0, 1, h, w] = k
        \<and> getitem (data out) [0, 1, h, w]
            = getitem (data ?x) [0, 1, h, w] * k * dropout_scale (drop_prob ?self)"
    using Dropout2d_channel_atomic [OF tr shp b c, of 9 "\<lambda>j. j * 2 ^ 52"] by blast
  moreover from this have "getitem m [0, 1, 0, 1] = k" "getitem m [0, 1, 1, 0] = k"
    "getitem (data out) [0, 1, 1, 0] = getitem (data ?x) [0, 1, 1, 0] * k * dropout_scale (1 / 2)"
    by simp_all
  ultimately show ?thesis using tr shp x7 by (intro conjI exI [of _ m] exI [of _ out] exI [of _ k]) simp_all
qed

subsection \<open>Dropout at the probabilities 0 and 1\<close>

lemma map2_mult_replicate_0:
  "map2 (*) xs (replicate (length xs) (0::real)) = replicate (length xs) 0"
  by (induction xs) simp_all

lemma map2_mult_replicate_1:
  "map2 (*) xs (replicate (length xs) (1::real)) = xs"
  by (induction xs) simp_all

text \<open>
  What holds of \<open>Dropout.forward\<close> at the two boundary probabilities: evaluation mode
  returns the input; at \<open>p = 1\<close> the training output is all zero; at \<open>p = 0\<close> the
  training output is the input provided every sample drawn is positive.
\<close>

lemma Dropout_forward_eval:
  "\<not> training self \<Longrightarrow> Dropout_forward fresh self x r = (Inr x, x, r)"
  by (simp add: Dropout_forward_def)

lemma Dropout_forward_training:
  assumes "training self" and "Tensor_shape x \<noteq> []" and "wf_ndarray (data x)"
  shows "Dropout_forward fresh self x r =
     (let d = \<lparr>shape = shape (data x),
                items = map2 (*) (items (data x))
                          (map (\<lambda>k. (if random_sample r k > drop_prob self then 1 else 0)
                                      * dropout_scale (drop_prob self))
                             [0..<prod_list (shape (data x))])\<rparr>;
          r' = rng_advance (prod_list (shape (data x))) r
      in if inplace self then (Inr (x\<lparr>data := d\<rparr>), x\<lparr>data := d\<rparr>, r')
         else (Inr (Tensor_init fresh d (requires_grad x)), x, r'))"
proof -
  let ?m = "np_scalar (\<lambda>m. m * dropout_scale (drop_prob self))
              (keep_mask (drop_prob self) (fst (np_random_rand (Tensor_shape x) r)))"
  have m: "?m = \<lparr>shape = shape (data x),
                  items = map (\<lambda>k. (if random_sample r k > drop_prob self then 1 else 0)
                                      * dropout_scale (drop_prob self))
                             [0..<prod_list (shape (data x))]\<rparr>"
    by (simp add: keep_mask_rand np_scalar_def Tensor_shape_def o_def)
  have "wf_ndarray ?m" and "shape ?m = shape (data x)"
    unfolding m by (simp_all add: wf_ndarray_def)
  then have "np_binary (*) (data x) ?m
             = Inr \<lparr>shape = shape (data x), items = map2 (*) (items (data x)) (items ?m)\<rparr>"
    using assms(3) by (intro np_binary_same_shape)
  then have bin: "np_binary (*) (data x) ?m
             = Inr \<lparr>shape = shape (data x),
                    items = map2 (*) (items (data x))
                          (map (\<lambda>k. (if random_sample r k > drop_prob self then 1 else 0)
                                      * dropout_scale (drop_prob self))
                             [0..<prod_list (shape (data x))])\<rparr>"
    by (simp only: m ndarray.simps)
  have snd_r: "snd (np_random_rand (Tensor_shape x) r)
               = rng_advance (prod_list (shape (data x))) r"
    by (simp add: np_random_rand_def Tensor_shape_def)
  show ?thesis
    using assms(1,2) by (simp add: Dropout_forward_def case_prod_beta Let_def bin snd_r)
qed

lemma Dropout_forward_p1:
  assumes "training self" and "drop_prob self = 1" and "Tensor_shape x \<noteq> []"
    and "wf_ndarray (data x)"
  shows "\<exists>out. fst (Dropout_forward fresh self x r) = Inr out
           \<and> data out = \<lparr>shape = shape (data x),
                           items = replicate (prod_list (shape (data x))) 0\<rparr>"
proof -
  have "map2 (*) (items (data x))
          (map (\<lambda>k. (if random_sample r k > 1 then 1 else 0) * dropout_scale 1)
             [0..<prod_list (shape (data x))])
        = replicate (prod_list (shape (data x))) 0"
    using assms(4) map2_mult_replicate_0 [of "items (data x)"]
    by (simp add: dropout_scale_def wf_ndarray_def map_replicate_const)
  then show ?thesis
    using assms by (auto simp add: Dropout_forward_training Let_def Tensor_init_def)
qed

lemma Dropout_forward_p0:
  assumes "training self" and "drop_prob self = 0" and "Tensor_shape x \<noteq> []"
    and "wf_ndarray (data x)"
    and "\<And>k. k < prod_list (shape (data x)) \<Longrightarrow> random_sample r k > 0"
  shows "\<exists>out. fst (Dropout_forward fresh self x r) = Inr out \<and> data out = data x"
proof -
  have "map (\<lambda>k. (if random_sample r k > 0 then 1 else 0) * dropout_scale 0)
             [0..<prod_list (shape (data x))]
        = map (\<lambda>k. 1) [0..<prod_list (shape (data x))]"
    by (rule map_cong) (simp_all add: assms(5) dropout_scale_def)
  then have "map2 (*) (items (data x))
          (map (\<lambda>k. (if random_sample r k > 0 then 1 else 0) * dropout_scale 0)
             [0..<prod_list (shape (data x))])
        = items (data x)"
    using assms(4) map2_mult_replicate_1 [of "items (data x)"]
    by (simp add: wf_ndarray_def map_replicate_const)
  then show ?thesis
    using assms(1-4) by (auto simp add: Dropout_forward_training Let_def Tensor_init_def)
qed

text \<open>
  C5, at the input where the code departs from it. The claim says that at \<open>p = 0\<close> the
  training output equals the input for every random draw. The mask keeps an element when
  its sample is greater than \<open>p\<close>, and a sample can be exactly 0: with the samples 0 and
  1/2 drawn for the input \<open>[5, 7]\<close>, the output is \<open>[0, 7]\<close>.
\<close>

theorem Dropout_forward_p0_zero_draw:
  "random_sample (\<lambda>j. j * 2 ^ 52) 0 = 0
   \<and> fst (Dropout_forward 9 \<lparr>drop_prob = 0, inplace = False, training = True\<rparr>
            \<lparr>tid = 3, data = \<lparr>shape = [2], items = [5, 7]\<rparr>, requires_grad = False\<rparr>
            (\<lambda>j. j * 2 ^ 52))
       = Inr \<lparr>tid = 9, data = \<lparr>shape = [2], items = [0, 7]\<rparr>, requires_grad = False\<rparr>"
proof -
  have "Dropout_forward 9 \<lparr>drop_prob = 0, inplace = False, training = True\<rparr>
            \<lparr>tid = 3, data = \<lparr>shape = [2], items = [5, 7]\<rparr>, requires_grad = False\<rparr>
            (\<lambda>j. j * 2 ^ 52)
        = (Inr \<lparr>tid = 9, data = \<lparr>shape = [2], items = [0, 7]\<rparr>, requires_grad = False\<rparr>,
           \<lparr>tid = 3, data = \<lparr>shape = [2], items = [5, 7]\<rparr>, requires_grad = False\<rparr>,
           rng_advance 2 (\<lambda>j. j * 2 ^ 52))"
    by (subst Dropout_forward_training)
       (simp_all add: Tensor_shape_def wf_ndarray_def Let_def Tensor_init_def upt_rec
          random_sample_def dropout_scale_def)
  then show ?thesis by (simp add: random_sample_def)
qed

subsection \<open>Axes that NumPy accepts\<close>













lemma length_np_argsort [simp]: "length (np_argsort xs) = length xs"
  by (simp add: np_argsort_def)




subsection \<open>Transpose: where an invalid permutation fails\<close>



lemma Transpose_forward_context:
  "fst (Transpose_forward dflt fresh ctx x axes)
   = ctx\<lparr>saved_tensors := [to_Tensor dflt fresh x],
         saved_arguments := (saved_arguments ctx)(''axes'' \<mapsto> axes)\<rparr>"
  by (simp add: Transpose_forward_def Let_def save_for_backward_def save_arguments_def)

lemma Transpose_backward_after_forward:
  "Transpose_backward (fst (Transpose_forward dflt fresh ctx x axes)) grad_output grad_dict
   = (if requires_grad (to_Tensor dflt fresh x) then
        (case np_transpose grad_output (map_option (map int \<circ> np_argsort) axes) of
           Inl e \<Rightarrow> Inl e
         | Inr g \<Rightarrow> Inr (grad_dict(tid (to_Tensor dflt fresh x) \<mapsto> g)))
      else Inr grad_dict)"
  by (simp add: Transpose_forward_context Transpose_backward_def split: option.splits)













lemma Transpose_forward_last_first:
  "snd (Transpose_forward False 9 \<lparr>saved_tensors = [], saved_arguments = Map.empty\<rparr>
          (IsTensor \<lparr>tid = 7, data = \<lparr>shape = [2, 3], items = [1, 2, 3, 4, 5, 6::int]\<rparr>,
                      requires_grad = True\<rparr>)
          (Some [- 1, 0]))
   = Inr \<lparr>tid = 9, data = \<lparr>shape = [3, 2], items = [1, 4, 2, 5, 3, 6]\<rparr>,
          requires_grad = False\<rparr>"
  by code_simp


subsection \<open>Transpose.backward and the inverse permutation\<close>

text \<open>
  On a permutation written with non-negative axes, \<open>argsort\<close> is the inverse
  permutation: it sends the axis found at position \<open>i\<close> back to \<open>i\<close>.
\<close>

lemma map_fst_zip_upt: "map fst (zip xs [0..<length xs]) = xs"
  by (rule map_fst_zip) simp

lemma sorted_keys_of_permutation:
  assumes "distinct xs" and "set xs = int ` {0..<length xs}"
  shows "map fst (sort_key fst (zip xs [0..<length xs])) = map int [0..<length xs]"
proof (rule sorted_distinct_set_unique)
  let ?zs = "zip xs [0..<length xs]"
  show "sorted (map fst (sort_key fst ?zs))" by (rule sorted_sort_key)
  have "distinct (map fst ?zs)" using assms(1) by (simp only: map_fst_zip_upt)
  then have "distinct ?zs \<and> inj_on fst (set ?zs)" by (simp only: distinct_map)
  then have "distinct (sort_key fst ?zs) \<and> inj_on fst (set (sort_key fst ?zs))"
    by (simp only: distinct_sort set_sort)
  then show "distinct (map fst (sort_key fst ?zs))" by (simp only: distinct_map)
  show "sorted (map int [0..<length xs])"
    by (simp add: sorted_map sorted_wrt_iff_nth_less)
  show "distinct (map int [0..<length xs])" by (simp add: distinct_map)
  have "set (map fst (sort_key fst ?zs)) = fst ` set ?zs" by (simp only: set_map set_sort)
  also have "\<dots> = set (map fst ?zs)" by (simp only: set_map)
  also have "\<dots> = set xs" by (simp only: map_fst_zip_upt)
  finally show "set (map fst (sort_key fst ?zs)) = set (map int [0..<length xs])"
    using assms(2) by simp
qed

lemma np_argsort_inverts:
  assumes "distinct xs" and "set xs = int ` {0..<length xs}" and "i < length xs"
  shows "np_argsort xs ! nat (xs ! i) = i"
proof -
  let ?zs = "zip xs [0..<length xs]"
  let ?ps = "sort_key fst ?zs"
  let ?j = "nat (xs ! i)"
  have "xs ! i \<in> int ` {0..<length xs}" using assms(2,3) nth_mem by blast
  then have j: "?j < length xs" and ij: "int ?j = xs ! i" by auto
  have len: "length ?ps = length xs" by simp
  have "?ps ! ?j \<in> set ?zs" using j len by (metis nth_mem set_sort)
  then obtain k where k: "k < length xs" "?ps ! ?j = (xs ! k, k)"
    by (auto simp add: set_zip)
  have "fst (?ps ! ?j) = map fst ?ps ! ?j" using j len by simp
  also have "\<dots> = map int [0..<length xs] ! ?j"
    using assms(1,2) by (simp only: sorted_keys_of_permutation)
  also have "\<dots> = int ?j" using j by simp
  finally have "xs ! k = xs ! i" using k(2) ij by simp
  then have "k = i" using assms(1,3) k(1) by (simp add: nth_eq_iff_index_eq)
  moreover have "np_argsort xs ! ?j = snd (?ps ! ?j)"
    using j len by (simp add: np_argsort_def)
  ultimately show ?thesis using k(2) by simp
qed

lemma argsort_last_first: "map int (np_argsort [- 1, 0]) = [0, 1]"
  by code_simp

lemma transpose_3_2_identity:
  "np_transpose \<lparr>shape = [3, 2], items = [10, 20, 30, 40, 50, 60::int]\<rparr> (Some [0, 1])
   = Inr \<lparr>shape = [3, 2], items = [10, 20, 30, 40, 50, 60]\<rparr>"
  by code_simp

lemma transpose_3_2_swapped:
  "np_transpose \<lparr>shape = [3, 2], items = [10, 20, 30, 40, 50, 60::int]\<rparr> (Some [1, 0])
   = Inr \<lparr>shape = [2, 3], items = [10, 30, 50, 20, 40, 60]\<rparr>"
  by code_simp

text \<open>
  C3, at the input where the code departs from it. NumPy accepts negative axes, so
  \<open>forward\<close> with the axes \<open>(-1, 0)\<close> transposes a \<open>2 \<times> 3\<close> input into a \<open>3 \<times> 2\<close>
  output. The inverse of that permutation is \<open>(1, 0)\<close>, which takes a \<open>3 \<times> 2\<close> gradient
  back to \<open>2 \<times> 3\<close>. \<open>backward\<close> sorts the saved axes as written: \<open>argsort\<close> of
  \<open>(-1, 0)\<close> is \<open>(0, 1)\<close>, the identity, and the contribution stored for the input is the
  \<open>3 \<times> 2\<close> gradient unchanged.
\<close>

theorem Transpose_backward_negative_axes:
  "snd (Transpose_forward False 9 \<lparr>saved_tensors = [], saved_arguments = Map.empty\<rparr>
          (IsTensor \<lparr>tid = 7, data = \<lparr>shape = [2, 3], items = [1, 2, 3, 4, 5, 6::int]\<rparr>,
                      requires_grad = True\<rparr>)
          (Some [- 1, 0]))
     = Inr \<lparr>tid = 9, data = \<lparr>shape = [3, 2], items = [1, 4, 2, 5, 3, 6]\<rparr>,
            requires_grad = False\<rparr>
   \<and> map int (np_argsort [- 1, 0]) = [0, 1]
   \<and> Transpose_backward
         (fst (Transpose_forward False 9 \<lparr>saved_tensors = [], saved_arguments = Map.empty\<rparr>
                 (IsTensor \<lparr>tid = 7, data = \<lparr>shape = [2, 3], items = [1, 2, 3, 4, 5, 6::int]\<rparr>,
                             requires_grad = True\<rparr>)
                 (Some [- 1, 0])))
         \<lparr>shape = [3, 2], items = [10, 20, 30, 40, 50, 60]\<rparr> Map.empty
       = Inr [7 \<mapsto> \<lparr>shape = [3, 2], items = [10, 20, 30, 40, 50, 60]\<rparr>]
   \<and> np_transpose \<lparr>shape = [3, 2], items = [10, 20, 30, 40, 50, 60::int]\<rparr> (Some [1, 0])
       = Inr \<lparr>shape = [2, 3], items = [10, 30, 50, 20, 40, 60]\<rparr>"
  by (simp add: Transpose_forward_last_first argsort_last_first transpose_3_2_swapped
      Transpose_backward_after_forward to_Tensor_def transpose_3_2_identity
      del: upt_Suc)

subsection \<open>Checkpoints\<close>

text \<open>
  What \<open>load_checkpoint\<close> returns when it loads what \<open>save_checkpoint\<close> wrote: the epoch
  and the loss as they were passed, and the additional data as passed, an absent one
  having become the empty dictionary.
\<close>

lemma load_after_save_info:
  assumes "load_checkpoint strict (save_checkpoint fs path model optimizer ep ls additional)
             path model' optimizer' = Inr (model'', optimizer'', info)"
  shows "info = \<lparr>info_epoch = ep, info_loss = ls,
                 info_additional_data = (case additional of None \<Rightarrow> [] | Some d \<Rightarrow> d)\<rparr>"
  using assms
  by (auto simp add: load_checkpoint_def save_checkpoint_def split: sum.splits)

lemma get_state_dict_nested:
  "get_state_dict
     (Module [(''weight'', Some \<lparr>tid = 3, data = \<lparr>shape = [2], items = [5, 7]\<rparr>,
                                  requires_grad = True\<rparr>)]
             []
             [(''bn'', Module [] [(''running_mean'',
                                   Some \<lparr>tid = 4, data = \<lparr>shape = [2], items = [10, 20]\<rparr>,
                                          requires_grad = False\<rparr>)] [])])
   = [(''weight'', \<lparr>shape = [2], items = [5, 7]\<rparr>)]"
  by (simp add: get_state_dict_def prefixed_def)

text \<open>
  The keys of the state dict a checkpoint holds, for any model: the names of the
  parameters \<open>named_parameters\<close> yields and the names of the model's own buffers. A
  buffer of a submodule is never among them under its own flat name.
\<close>

lemma keys_dict_set: "fst ` set (dict_set k v d) = insert k (fst ` set d)"
proof (induction d)
  case Nil
  then show ?case by simp
next
  case (Cons kv d)
  obtain k' v' where kv: "kv = (k', v')" by (cases kv)
  show ?case
  proof (cases "k' = k")
    case True
    then show ?thesis using kv by simp
  next
    case False
    then have "fst ` set (dict_set k v (kv # d)) = insert k' (fst ` set (dict_set k v d))"
      using kv by simp
    also have "\<dots> = insert k' (insert k (fst ` set d))" by (simp only: Cons.IH)
    also have "\<dots> = insert k (fst ` set (kv # d))" using kv by auto
    finally show ?thesis .
  qed
qed

lemma keys_put_arrays:
  "fst ` set (put_arrays ts sd) = fst ` set sd \<union> {k. \<exists>t. (k, Some t) \<in> set ts}"
proof (induction ts sd rule: put_arrays.induct)
  case (1 sd)
  then show ?case by simp
next
  case (2 name rest sd)
  have "{k. \<exists>t. (k, Some t) \<in> set ((name, None) # rest)} = {k. \<exists>t. (k, Some t) \<in> set rest}"
    by auto
  then show ?case using 2 by simp
next
  case (3 name t rest sd)
  have "{k. \<exists>t'. (k, Some t') \<in> set ((name, Some t) # rest)}
        = insert name {k. \<exists>t'. (k, Some t') \<in> set rest}"
    by auto
  then show ?case using 3 by (simp add: keys_dict_set)
qed

lemma keys_get_state_dict:
  "fst ` set (get_state_dict model)
   = {k. \<exists>t. (k, Some t) \<in> set (named_parameters model)}
     \<union> {k. \<exists>t. (k, Some t) \<in> set (m_buffers model)}"
  by (simp add: get_state_dict_def keys_put_arrays)

text \<open>
  C8, at the input where the code departs from it. The claim says that loading a
  checkpoint restores the model's parameters and buffers. \<open>get_state_dict\<close> takes the
  parameters from \<open>named_parameters\<close>, which walks the submodules, but the buffers from
  the model's own \<open>_buffers\<close> only. For a model with a submodule \<open>bn\<close> that owns the
  buffer \<open>running_mean\<close>, the saved state dict holds the weight alone. After the arrays
  have changed, loading the checkpoint puts the weight back and leaves the changed
  \<open>running_mean\<close> in place when missing keys are passed over, and raises when they are
  not.
\<close>

theorem checkpoint_submodule_buffer_not_restored:
  "get_state_dict
     (Module [(''weight'', Some \<lparr>tid = 3, data = \<lparr>shape = [2], items = [5, 7]\<rparr>,
                                  requires_grad = True\<rparr>)]
             []
             [(''bn'', Module [] [(''running_mean'',
                                   Some \<lparr>tid = 4, data = \<lparr>shape = [2], items = [10, 20]\<rparr>,
                                          requires_grad = False\<rparr>)] [])])
     = [(''weight'', \<lparr>shape = [2], items = [5, 7]\<rparr>)]
   \<and> load_checkpoint False
       (save_checkpoint Map.empty ''ckpt''
          (Module [(''weight'', Some \<lparr>tid = 3, data = \<lparr>shape = [2], items = [5, 7]\<rparr>,
                                       requires_grad = True\<rparr>)]
                  []
                  [(''bn'', Module [] [(''running_mean'',
                                        Some \<lparr>tid = 4, data = \<lparr>shape = [2], items = [10, 20]\<rparr>,
                                               requires_grad = False\<rparr>)] [])])
          None (Some 3) (Some (1 / 2)) (Some [(''lr'', 2::int)]))
       ''ckpt''
       (Module [(''weight'', Some \<lparr>tid = 3, data = \<lparr>shape = [2], items = [6, 8]\<rparr>,
                                    requires_grad = True\<rparr>)]
               []
               [(''bn'', Module [] [(''running_mean'',
                                     Some \<lparr>tid = 4, data = \<lparr>shape = [2], items = [11, 22]\<rparr>,
                                            requires_grad = False\<rparr>)] [])])
       None
     = Inr (Module [(''weight'', Some \<lparr>tid = 3, data = \<lparr>shape = [2], items = [5, 7]\<rparr>,
                                        requires_grad = True\<rparr>)]
                   []
                   [(''bn'', Module [] [(''running_mean'',
                                         Some \<lparr>tid = 4, data = \<lparr>shape = [2], items = [11, 22]\<rparr>,
                                                requires_grad = False\<rparr>)] [])],
            None,
            \<lparr>info_epoch = Some 3, info_loss = Some (1 / 2),
             info_additional_data = [(''lr'', 2)]\<rparr>)
   \<and> load_checkpoint True
       (save_checkpoint Map.empty ''ckpt''
          (Module [(''weight'', Some \<lparr>tid = 3, data = \<lparr>shape = [2], items = [5, 7]\<rparr>,
                                       requires_grad = True\<rparr>)]
                  []
                  [(''bn'', Module [] [(''running_mean'',
                                        Some \<lparr>tid = 4, data = \<lparr>shape = [2], items = [10, 20]\<rparr>,
                                               requires_grad = False\<rparr>)] [])])
          None (Some 3) (Some (1 / 2)) (Some [(''lr'', 2::int)]))
       ''ckpt''
       (Module [(''weight'', Some \<lparr>tid = 3, data = \<lparr>shape = [2], items = [6, 8]\<rparr>,
                                    requires_grad = True\<rparr>)]
               []
               [(''bn'', Module [] [(''running_mean'',
                                     Some \<lparr>tid = 4, data = \<lparr>shape = [2], items = [11, 22]\<rparr>,
                                            requires_grad = False\<rparr>)] [])])
       None
     = Inl (KeyError ''missing or unexpected keys in state dict'')"
  by (simp add: get_state_dict_nested load_checkpoint_def save_checkpoint_def
      Module_load_state_dict_def dict_get_def prefixed_def)

end
